theory Spec2Isabelle
  imports Complex_Main "HOL-Library.Sublist"
begin

section \<open>Graph definitions, tensors and Python values\<close>

text \<open>
  The module \<^verbatim>\<open>detectron2/export/caffe2_inference.py\<close> drives a Caffe2 graph from
  Python.  A graph definition (\<^verbatim>\<open>caffe2_pb2.NetDef\<close>) is a protobuf message; the
  fields the module reads are its name, its declared external inputs and outputs and
  its list of named arguments.  Byte strings are lists of 8-bit characters.
\<close>

type_synonym bytes = "char list"

record Argument =
  arg_name :: string
  arg_i :: int
  arg_s :: bytes

record OperatorDef =
  op_type :: string
  op_input :: "string list"
  op_output :: "string list"

record NetDef =
  name :: string
  op :: "OperatorDef list"
  external_input :: "string list"
  external_output :: "string list"
  arg :: "Argument list"

text \<open>
  A tensor (a \<^verbatim>\<open>torch.Tensor\<close> or a numpy array) is its shape and its elements, read
  by index.
\<close>

record tensor =
  shape :: "nat list"
  elem :: "nat list \<Rightarrow> real"

text \<open>
  A workspace blob holds a tensor, a string, or nothing yet (a blob that was created
  and never fed).
\<close>

datatype blob = TensorBlob tensor | StringBlob string | UninitializedBlob

text \<open>The exceptions the module can raise or let through.\<close>

datatype exn =
  AssertionError
  | TypeError
  | KeyError string
  | AttributeError
  | UnicodeDecodeError
  | RuntimeError string

text \<open>
  \<^verbatim>\<open>KeyError\<close> is the only one of them that Python derives from \<^verbatim>\<open>LookupError\<close>
  (\<^verbatim>\<open>UnicodeDecodeError\<close> derives from \<^verbatim>\<open>ValueError\<close>).
\<close>

fun is_LookupError :: "exn \<Rightarrow> bool" where
  "is_LookupError (KeyError k) = True"
| "is_LookupError AssertionError = False"
| "is_LookupError TypeError = False"
| "is_LookupError AttributeError = False"
| "is_LookupError UnicodeDecodeError = False"
| "is_LookupError (RuntimeError m) = False"

text \<open>
  The constructors take arbitrary Python objects and assert that they are graph
  definitions.
\<close>

datatype pyobj = NetDefObj NetDef | OtherObj

section \<open>The Caffe2 workspace\<close>

text \<open>
  Caffe2 keeps process-wide named workspaces, one of them current.  A workspace maps
  blob names to blobs and net names to the nets registered in it.  The process state
  also carries the sequence of workspace calls made so far and the records written to
  the module's logger.
\<close>

record workspace =
  blobs :: "string \<rightharpoonup> blob"
  nets :: "string \<rightharpoonup> NetDef"

datatype ws_call =
  Call_RunNetOnce string
  | Call_CreateBlob string
  | Call_CreateNet string
  | Call_FeedBlob string blob
  | Call_RunNet string
  | Call_FetchBlob string

datatype log_level = INFO | WARNING

record caffe2 =
  workspaces :: "string \<Rightarrow> workspace"
  current :: string
  calls :: "ws_call list"
  log :: "(log_level \<times> string) list"

definition empty_workspace :: workspace where
  "empty_workspace = \<lparr>blobs = Map.empty, nets = Map.empty\<rparr>"

text \<open>
  The operator kernels are not part of this module.  What executing and instantiating
  a graph does to the blobs of a workspace is a parameter: each returns the blobs it
  leaves behind and, when the engine raises, the message of its \<^verbatim>\<open>RuntimeError\<close>.
\<close>

record engine =
  run_ops :: "NetDef \<Rightarrow> (string \<rightharpoonup> blob) \<Rightarrow> string option \<times> (string \<rightharpoonup> blob)"
  create_ops :: "NetDef \<Rightarrow> (string \<rightharpoonup> blob) \<Rightarrow> string option \<times> (string \<rightharpoonup> blob)"

definition cur_blobs :: "caffe2 \<Rightarrow> (string \<rightharpoonup> blob)" where
  "cur_blobs c = blobs (workspaces c (current c))"

definition cur_nets :: "caffe2 \<Rightarrow> (string \<rightharpoonup> NetDef)" where
  "cur_nets c = nets (workspaces c (current c))"

definition set_blobs :: "(string \<rightharpoonup> blob) \<Rightarrow> caffe2 \<Rightarrow> caffe2" where
  "set_blobs bs c =
     c\<lparr>workspaces := (workspaces c)(current c := (workspaces c (current c))\<lparr>blobs := bs\<rparr>)\<rparr>"

definition set_nets :: "(string \<rightharpoonup> NetDef) \<Rightarrow> caffe2 \<Rightarrow> caffe2" where
  "set_nets ns c =
     c\<lparr>workspaces := (workspaces c)(current c := (workspaces c (current c))\<lparr>nets := ns\<rparr>)\<rparr>"

definition record_call :: "ws_call \<Rightarrow> caffe2 \<Rightarrow> caffe2" where
  "record_call e c = c\<lparr>calls := calls c @ [e]\<rparr>"

definition logger_info :: "string \<Rightarrow> caffe2 \<Rightarrow> caffe2" where
  "logger_info m c = c\<lparr>log := log c @ [(INFO, m)]\<rparr>"

definition logger_warning :: "string \<Rightarrow> caffe2 \<Rightarrow> caffe2" where
  "logger_warning m c = c\<lparr>log := log c @ [(WARNING, m)]\<rparr>"

text \<open>\<^verbatim>\<open>ws.Blobs()\<close>: the names of the blobs of the current workspace.\<close>

definition Blobs :: "caffe2 \<Rightarrow> string set" where
  "Blobs c = dom (cur_blobs c)"

text \<open>\<^verbatim>\<open>ws.CreateBlob(b)\<close>: an existing blob is kept, a missing one is created empty.\<close>

definition CreateBlob :: "string \<Rightarrow> caffe2 \<Rightarrow> caffe2" where
  "CreateBlob b c =
     record_call (Call_CreateBlob b)
       (case cur_blobs c b of
          Some v \<Rightarrow> c
        | None \<Rightarrow> set_blobs ((cur_blobs c)(b \<mapsto> UninitializedBlob)) c)"

definition FeedBlob :: "string \<Rightarrow> blob \<Rightarrow> caffe2 \<Rightarrow> caffe2" where
  "FeedBlob b v c = record_call (Call_FeedBlob b v) (set_blobs ((cur_blobs c)(b \<mapsto> v)) c)"

text \<open>\<^verbatim>\<open>ws.FetchBlob(b)\<close> raises when the workspace has no blob of that name.\<close>

definition FetchBlob :: "string \<Rightarrow> caffe2 \<Rightarrow> (exn + blob) \<times> caffe2" where
  "FetchBlob b c =
     (case cur_blobs c b of
        None \<Rightarrow> Inl (RuntimeError (''Can't find blob: '' @ b))
      | Some v \<Rightarrow> Inr v,
      record_call (Call_FetchBlob b) c)"

definition RunNetOnce :: "engine \<Rightarrow> NetDef \<Rightarrow> caffe2 \<Rightarrow> exn option \<times> caffe2" where
  "RunNetOnce eng n c =
     (case run_ops eng n (cur_blobs c) of
        (r, bs) \<Rightarrow> (map_option RuntimeError r, record_call (Call_RunNetOnce (name n)) (set_blobs bs c)))"

text \<open>
  \<^verbatim>\<open>ws.CreateNet(net)\<close> instantiates the operators and registers the net under its
  name.
\<close>

definition CreateNet :: "engine \<Rightarrow> NetDef \<Rightarrow> caffe2 \<Rightarrow> exn option \<times> caffe2" where
  "CreateNet eng n c =
     (case create_ops eng n (cur_blobs c) of
        (Some m, bs) \<Rightarrow>
          (Some (RuntimeError m), record_call (Call_CreateNet (name n)) (set_blobs bs c))
      | (None, bs) \<Rightarrow>
          (None, record_call (Call_CreateNet (name n))
                   (set_nets ((cur_nets c)(name n \<mapsto> n)) (set_blobs bs c))))"

text \<open>\<^verbatim>\<open>ws.RunNet(name)\<close> runs the net registered under the name.\<close>

definition RunNet :: "engine \<Rightarrow> string \<Rightarrow> caffe2 \<Rightarrow> exn option \<times> caffe2" where
  "RunNet eng nm c =
     (case cur_nets c nm of
        None \<Rightarrow> (Some (RuntimeError (''Can't find net: '' @ nm)), record_call (Call_RunNet nm) c)
      | Some n \<Rightarrow>
          (case run_ops eng n (cur_blobs c) of
             (r, bs) \<Rightarrow> (map_option RuntimeError r, record_call (Call_RunNet nm) (set_blobs bs c))))"

text \<open>
  Modelled from the spec: \<^verbatim>\<open>ScopedWS\<close> of \<^verbatim>\<open>detectron2/export/shared.py\<close>, the context
  manager that opens the named workspace of the runner.  Entering switches to the
  workspace of that name (created empty when it does not exist) and, with
  \<^verbatim>\<open>is_reset\<close>, empties it; leaving empties it with \<^verbatim>\<open>is_cleanup\<close> and switches back
  to the workspace that was current before, also when the body raised.
\<close>

definition SwitchWorkspace :: "string \<Rightarrow> caffe2 \<Rightarrow> caffe2" where
  "SwitchWorkspace w c = c\<lparr>current := w\<rparr>"

definition ResetWorkspace :: "caffe2 \<Rightarrow> caffe2" where
  "ResetWorkspace c = c\<lparr>workspaces := (workspaces c)(current c := empty_workspace)\<rparr>"

definition ScopedWS_enter :: "string \<Rightarrow> bool \<Rightarrow> caffe2 \<Rightarrow> string \<times> caffe2" where
  "ScopedWS_enter ws_nm is_reset c =
     (let org_ws = current c;
          c1 = SwitchWorkspace ws_nm c
      in (org_ws, if is_reset then ResetWorkspace c1 else c1))"

definition ScopedWS_exit :: "string \<Rightarrow> bool \<Rightarrow> caffe2 \<Rightarrow> caffe2" where
  "ScopedWS_exit org_ws is_cleanup c =
     SwitchWorkspace org_ws (if is_cleanup then ResetWorkspace c else c)"

definition ScopedWS ::
  "string \<Rightarrow> bool \<Rightarrow> bool \<Rightarrow> (caffe2 \<Rightarrow> 'a \<times> caffe2) \<Rightarrow> caffe2 \<Rightarrow> 'a \<times> caffe2" where
  "ScopedWS ws_nm is_reset is_cleanup body c =
     (case ScopedWS_enter ws_nm is_reset c of
        (org_ws, c1) \<Rightarrow> (case body c1 of (r, c2) \<Rightarrow> (r, ScopedWS_exit org_ws is_cleanup c2)))"

section \<open>ProtobufModel\<close>

record ProtobufModel =
  ws_name :: string
  net :: NetDef
  error_msgs :: "string set"

text \<open>
  \<^verbatim>\<open>core.Net(predict_net)\<close> wraps a copy of the graph definition; \<^verbatim>\<open>Proto()\<close> gives
  that copy back.
\<close>

definition core_Net :: "NetDef \<Rightarrow> NetDef" where
  "core_Net predict_net = predict_net"

text \<open>
  The loop of the constructor over the declared external inputs: a blob is created for
  each name the workspace does not have yet.
\<close>

fun create_missing_inputs :: "string list \<Rightarrow> caffe2 \<Rightarrow> caffe2" where
  "create_missing_inputs [] c = c"
| "create_missing_inputs (b # bs) c =
     create_missing_inputs bs (if b \<notin> Blobs c then CreateBlob b c else c)"

text \<open>The body of the \<^verbatim>\<open>with\<close> statement of the constructor.\<close>

definition init_body :: "engine \<Rightarrow> NetDef \<Rightarrow> NetDef \<Rightarrow> caffe2 \<Rightarrow> exn option \<times> caffe2" where
  "init_body eng nt init_net c =
     (case RunNetOnce eng init_net c of
        (Some e, c1) \<Rightarrow> (Some e, c1)
      | (None, c1) \<Rightarrow> CreateNet eng nt (create_missing_inputs (external_input nt) c1))"

definition ProtobufModel_init ::
  "engine \<Rightarrow> pyobj \<Rightarrow> pyobj \<Rightarrow> caffe2 \<Rightarrow> (exn + ProtobufModel) \<times> caffe2" where
  "ProtobufModel_init eng predict_net init_net c =
     (let c0 = logger_info ''Initializing ProtobufModel ...'' c in
      case predict_net of
        OtherObj \<Rightarrow> (Inl AssertionError, c0)
      | NetDefObj p \<Rightarrow>
          (case init_net of
             OtherObj \<Rightarrow> (Inl AssertionError, c0)
           | NetDefObj i \<Rightarrow>
               (let ws_nm = ''__ws_tmp__'';
                    nt = core_Net p
                in case ScopedWS ws_nm True False (init_body eng nt i) c0 of
                     (Some e, c1) \<Rightarrow> (Inl e, c1)
                   | (None, c1) \<Rightarrow>
                       (Inr \<lparr>ws_name = ws_nm, net = nt, error_msgs = {}\<rparr>, c1))))"

text \<open>
  An \<^verbatim>\<open>OrderedDict\<close> is an association list without repeated keys: assigning to a key
  that is present replaces its value in place, a new key goes to the end.
\<close>

fun od_setitem :: "(string \<times> 'v) list \<Rightarrow> string \<Rightarrow> 'v \<Rightarrow> (string \<times> 'v) list" where
  "od_setitem [] k v = [(k, v)]"
| "od_setitem ((k', v') # d) k v =
     (if k' = k then (k', v) # d else (k', v') # od_setitem d k v)"

definition OrderedDict :: "(string \<times> 'v) list \<Rightarrow> (string \<times> 'v) list" where
  "OrderedDict items = foldl (\<lambda>d (k, v). od_setitem d k v) [] items"

fun feed_inputs :: "(string \<times> tensor) list \<Rightarrow> caffe2 \<Rightarrow> caffe2" where
  "feed_inputs [] c = c"
| "feed_inputs ((b, t) # items) c = feed_inputs items (FeedBlob b (TensorBlob t) c)"

text \<open>
  The \<^verbatim>\<open>try\<close> statement: a \<^verbatim>\<open>RuntimeError\<close> of the run is caught, its message is
  remembered and logged the first time it is seen, and the call goes on.
\<close>

definition new_error_warning :: "string \<Rightarrow> string" where
  "new_error_warning m = ''Encountered new RuntimeError: '' @ [CHR 0x0A] @ m"

definition except_RuntimeError ::
  "string \<Rightarrow> ProtobufModel \<Rightarrow> caffe2 \<Rightarrow> ProtobufModel \<times> caffe2" where
  "except_RuntimeError m self c =
     (case (if m \<notin> error_msgs self
            then (self\<lparr>error_msgs := insert m (error_msgs self)\<rparr>,
                  logger_warning (new_error_warning m) c)
            else (self, c)) of
        (self', c') \<Rightarrow> (self', logger_warning ''Catch the error and use partial results.'' c'))"

definition try_RunNet ::
  "engine \<Rightarrow> ProtobufModel \<Rightarrow> caffe2 \<Rightarrow> exn option \<times> ProtobufModel \<times> caffe2" where
  "try_RunNet eng self c =
     (case RunNet eng (name (net self)) c of
        (None, c1) \<Rightarrow> (None, self, c1)
      | (Some (RuntimeError m), c1) \<Rightarrow>
          (case except_RuntimeError m self c1 of (self', c2) \<Rightarrow> (None, self', c2))
      | (Some e, c1) \<Rightarrow> (Some e, self, c1))"

text \<open>The list comprehension that fetches every declared external output.\<close>

fun fetch_outputs :: "string list \<Rightarrow> caffe2 \<Rightarrow> (exn + (string \<times> blob) list) \<times> caffe2" where
  "fetch_outputs [] c = (Inr [], c)"
| "fetch_outputs (b # bs) c =
     (case FetchBlob b c of
        (Inl e, c1) \<Rightarrow> (Inl e, c1)
      | (Inr v, c1) \<Rightarrow>
          (case fetch_outputs bs c1 of
             (Inl e, c2) \<Rightarrow> (Inl e, c2)
           | (Inr items, c2) \<Rightarrow> (Inr ((b, v) # items), c2)))"

definition uninitialized_str :: "string \<Rightarrow> string" where
  "uninitialized_str b = b @ '', a C++ native class of type nullptr (uninitialized).''"

fun reset_outputs :: "string list \<Rightarrow> caffe2 \<Rightarrow> caffe2" where
  "reset_outputs [] c = c"
| "reset_outputs (b # bs) c =
     reset_outputs bs (FeedBlob b (StringBlob (uninitialized_str b)) c)"

text \<open>The body of the \<^verbatim>\<open>with\<close> statement of \<^verbatim>\<open>forward\<close>.\<close>

definition forward_body ::
  "engine \<Rightarrow> ProtobufModel \<Rightarrow> (string \<times> tensor) list \<Rightarrow> caffe2 \<Rightarrow>
     ((exn + (string \<times> blob) list) \<times> ProtobufModel) \<times> caffe2" where
  "forward_body eng self inputs_dict c =
     (case try_RunNet eng self (feed_inputs inputs_dict c) of
        (Some e, self', c1) \<Rightarrow> ((Inl e, self'), c1)
      | (None, self', c1) \<Rightarrow>
          (case fetch_outputs (external_output (net self)) c1 of
             (Inl e, c2) \<Rightarrow> ((Inl e, self'), c2)
           | (Inr items, c2) \<Rightarrow>
               ((Inr (OrderedDict items), self'),
                reset_outputs (external_output (net self)) c2)))"

text \<open>
  \<^verbatim>\<open>ProtobufModel.forward\<close>.  The argument is whatever Python object the caller passes:
  a dictionary, or \<^verbatim>\<open>None\<close>, over which the assertion cannot iterate.
\<close>

definition ProtobufModel_forward ::
  "engine \<Rightarrow> ProtobufModel \<Rightarrow> (string \<times> tensor) list option \<Rightarrow> caffe2 \<Rightarrow>
     (exn + (string \<times> blob) list) \<times> ProtobufModel \<times> caffe2" where
  "ProtobufModel_forward eng self inputs_dict c =
     (case inputs_dict of
        None \<Rightarrow> (Inl TypeError, self, c)
      | Some d \<Rightarrow>
          if \<not> list_all (\<lambda>inp. inp \<in> set (external_input (net self))) (map fst d)
          then (Inl AssertionError, self, c)
          else (case ScopedWS (ws_name self) False False (forward_body eng self d) c of
                  ((r, self'), c1) \<Rightarrow> (r, self', c1)))"

section \<open>Collaborators of the detection model\<close>

text \<open>
  Modelled from the spec: the accessor helpers \<^verbatim>\<open>get_pb_arg_vali\<close> and
  \<^verbatim>\<open>get_pb_arg_vals\<close> of \<^verbatim>\<open>detectron2/export/shared.py\<close>, which read a named argument
  of the graph definition and return a typed default when it is absent.
\<close>

fun get_pb_arg :: "Argument list \<Rightarrow> string \<Rightarrow> Argument option" where
  "get_pb_arg [] nm = None"
| "get_pb_arg (x # xs) nm = (if arg_name x = nm then Some x else get_pb_arg xs nm)"

definition get_pb_arg_vali :: "pyobj \<Rightarrow> string \<Rightarrow> int \<Rightarrow> exn + int" where
  "get_pb_arg_vali pb nm default_val =
     (case pb of
        OtherObj \<Rightarrow> Inl AttributeError
      | NetDefObj n \<Rightarrow>
          (case get_pb_arg (arg n) nm of None \<Rightarrow> Inr default_val | Some a \<Rightarrow> Inr (arg_i a)))"

definition get_pb_arg_vals :: "pyobj \<Rightarrow> string \<Rightarrow> bytes \<Rightarrow> exn + bytes" where
  "get_pb_arg_vals pb nm default_val =
     (case pb of
        OtherObj \<Rightarrow> Inl AttributeError
      | NetDefObj n \<Rightarrow>
          (case get_pb_arg (arg n) nm of None \<Rightarrow> Inr default_val | Some a \<Rightarrow> Inr (arg_s a)))"

text \<open>
  \<^verbatim>\<open>bytes.decode("ascii")\<close> raises \<^verbatim>\<open>UnicodeDecodeError\<close> on any byte above 127.
\<close>

definition decode_ascii :: "bytes \<Rightarrow> exn + string" where
  "decode_ascii bs =
     (if list_all (\<lambda>ch. (of_char ch :: nat) < 128) bs then Inr bs else Inl UnicodeDecodeError)"

text \<open>One element of the batch: the image (channels, rows, columns) and the size wanted
  for the output, when given.\<close>

record batched_input =
  image_t :: tensor
  height :: "nat option"
  width :: "nat option"

text \<open>
  Modelled from the spec: \<^verbatim>\<open>convert_batched_inputs_to_c2_format\<close> of
  \<^verbatim>\<open>detectron2/export/caffe2_modeling.py\<close>.  It batches the images into one tensor,
  zero-padded, whose spatial dimensions are those of the largest image rounded up to
  the nearest multiple of the size divisibility (0 means no padding), and packs one
  row of metadata per image: its height, its width and the scale of the wanted height.
\<close>

definition round_up_to :: "int \<Rightarrow> nat \<Rightarrow> nat" where
  "round_up_to size_div n =
     (if size_div \<le> 0 then n else ((n + nat size_div - 1) div nat size_div) * nat size_div)"

definition image_height :: "batched_input \<Rightarrow> nat" where
  "image_height x = shape (image_t x) ! 1"

definition image_width :: "batched_input \<Rightarrow> nat" where
  "image_width x = shape (image_t x) ! 2"

definition padded_batch :: "batched_input list \<Rightarrow> int \<Rightarrow> tensor" where
  "padded_batch batched_inputs size_div =
     \<lparr>shape = [length batched_inputs,
               shape (image_t (hd batched_inputs)) ! 0,
               round_up_to size_div (foldr max (map image_height batched_inputs) 0),
               round_up_to size_div (foldr max (map image_width batched_inputs) 0)],
      elem = (\<lambda>idx. case idx of
                [n, ch, y, x] \<Rightarrow>
                  if n < length batched_inputs
                     \<and> y < image_height (batched_inputs ! n)
                     \<and> x < image_width (batched_inputs ! n)
                  then elem (image_t (batched_inputs ! n)) [ch, y, x]
                  else 0
              | _ \<Rightarrow> 0)\<rparr>"

definition im_info_of :: "batched_input list \<Rightarrow> tensor" where
  "im_info_of batched_inputs =
     \<lparr>shape = [length batched_inputs, 3],
      elem = (\<lambda>idx. case idx of
                [n, k] \<Rightarrow>
                  if n < length batched_inputs then
                    (let x = batched_inputs ! n;
                         target_height = (case height x of None \<Rightarrow> image_height x | Some h \<Rightarrow> h)
                     in if k = 0 then real (image_height x)
                        else if k = 1 then real (image_width x)
                        else if k = 2 then real target_height / real (image_height x)
                        else 0)
                  else 0
              | _ \<Rightarrow> 0)\<rparr>"

definition convert_batched_inputs_to_c2_format ::
  "batched_input list \<Rightarrow> int \<Rightarrow> exn + tensor \<times> tensor" where
  "convert_batched_inputs_to_c2_format batched_inputs size_div =
     (if batched_inputs = []
         \<or> \<not> list_all (\<lambda>x. length (shape (image_t x)) = 3) batched_inputs
      then Inl AssertionError
      else Inr (padded_batch batched_inputs size_div, im_info_of batched_inputs))"

section \<open>ProtobufDetectionModel\<close>

text \<open>
  An output converter takes the batched inputs, the graph inputs and the graph
  outputs and builds the detection results; the results are opaque here.  The
  registry \<^verbatim>\<open>META_ARCH_CAFFE2_EXPORT_TYPE_MAP\<close> maps an architecture name to the class
  whose \<^verbatim>\<open>get_outputs_converter\<close> builds the converter of a graph; it is a parameter.
\<close>

type_synonym 'r converter =
  "batched_input list \<Rightarrow> (string \<times> tensor) list option \<Rightarrow> (string \<times> blob) list \<Rightarrow> exn + 'r"

type_synonym 'r meta_arch_map = "string \<rightharpoonup> (pyobj \<Rightarrow> pyobj \<Rightarrow> 'r converter)"

record 'r ProtobufDetectionModel =
  protobuf_model :: ProtobufModel
  size_divisibility :: int
  convert_outputs :: "'r converter"

definition ProtobufDetectionModel_init ::
  "engine \<Rightarrow> 'r meta_arch_map \<Rightarrow> pyobj \<Rightarrow> pyobj \<Rightarrow> 'r converter option \<Rightarrow> caffe2 \<Rightarrow>
     (exn + 'r ProtobufDetectionModel) \<times> caffe2" where
  "ProtobufDetectionModel_init eng META_ARCH_CAFFE2_EXPORT_TYPE_MAP predict_net init_net
       convert_outputs_arg c =
     (case ProtobufModel_init eng predict_net init_net c of
        (Inl e, c1) \<Rightarrow> (Inl e, c1)
      | (Inr pm, c1) \<Rightarrow>
          (case get_pb_arg_vali predict_net ''size_divisibility'' 0 of
             Inl e \<Rightarrow> (Inl e, c1)
           | Inr sd \<Rightarrow>
               (case convert_outputs_arg of
                  Some f \<Rightarrow>
                    (Inr \<lparr>protobuf_model = pm, size_divisibility = sd, convert_outputs = f\<rparr>, c1)
                | None \<Rightarrow>
                    (case get_pb_arg_vals predict_net ''meta_architecture'' ''GeneralizedRCNN'' of
                       Inl e \<Rightarrow> (Inl e, c1)
                     | Inr tag \<Rightarrow>
                         (case decode_ascii tag of
                            Inl e \<Rightarrow> (Inl e, c1)
                          | Inr key \<Rightarrow>
                              (case META_ARCH_CAFFE2_EXPORT_TYPE_MAP key of
                                 None \<Rightarrow> (Inl (KeyError key), c1)
                               | Some meta_arch \<Rightarrow>
                                   (Inr \<lparr>protobuf_model = pm, size_divisibility = sd,
                                         convert_outputs = meta_arch predict_net init_net\<rparr>,
                                    c1)))))))"

text \<open>
  \<^verbatim>\<open>_convert_inputs\<close> builds the graph inputs, calls the wrapped model on them and ends
  without a \<^verbatim>\<open>return\<close> statement: when nothing raises, its value is \<^verbatim>\<open>None\<close>.
\<close>

definition convert_inputs ::
  "engine \<Rightarrow> 'r ProtobufDetectionModel \<Rightarrow> batched_input list \<Rightarrow> caffe2 \<Rightarrow>
     (exn + (string \<times> tensor) list option) \<times> 'r ProtobufDetectionModel \<times> caffe2" where
  "convert_inputs eng self batched_inputs c =
     (case convert_batched_inputs_to_c2_format batched_inputs (size_divisibility self) of
        Inl e \<Rightarrow> (Inl e, self, c)
      | Inr (data, im_info) \<Rightarrow>
          (let c2_inputs = [(''data'', data), (''im_info'', im_info)] in
           case ProtobufModel_forward eng (protobuf_model self) (Some c2_inputs) c of
             (Inl e, pm, c1) \<Rightarrow> (Inl e, self\<lparr>protobuf_model := pm\<rparr>, c1)
           | (Inr c2_results, pm, c1) \<Rightarrow> (Inr None, self\<lparr>protobuf_model := pm\<rparr>, c1)))"

definition ProtobufDetectionModel_forward ::
  "engine \<Rightarrow> 'r ProtobufDetectionModel \<Rightarrow> batched_input list \<Rightarrow> caffe2 \<Rightarrow>
     (exn + 'r) \<times> 'r ProtobufDetectionModel \<times> caffe2" where
  "ProtobufDetectionModel_forward eng self batched_inputs c =
     (case convert_inputs eng self batched_inputs c of
        (Inl e, self1, c1) \<Rightarrow> (Inl e, self1, c1)
      | (Inr c2_inputs, self1, c1) \<Rightarrow>
          (case ProtobufModel_forward eng (protobuf_model self1) c2_inputs c1 of
             (Inl e, pm, c2) \<Rightarrow> (Inl e, self1\<lparr>protobuf_model := pm\<rparr>, c2)
           | (Inr c2_results, pm, c2) \<Rightarrow>
               (convert_outputs self1 batched_inputs c2_inputs c2_results,
                self1\<lparr>protobuf_model := pm\<rparr>, c2)))"

section \<open>Observations used in the statements\<close>

text \<open>
  The run of the graph inside \<^verbatim>\<open>ProtobufModel.forward\<close>: the outcome of
  \<^verbatim>\<open>ws.RunNet\<close> and the process state it leaves, once the runner's workspace is open
  and the inputs are fed, before any output is fetched.
\<close>

definition graph_run ::
  "engine \<Rightarrow> ProtobufModel \<Rightarrow> (string \<times> tensor) list \<Rightarrow> caffe2 \<Rightarrow> exn option \<times> caffe2" where
  "graph_run eng self inputs_dict c =
     RunNet eng (name (net self))
       (feed_inputs inputs_dict (snd (ScopedWS_enter (ws_name self) False c)))"

text \<open>The blobs of the workspace of a runner.\<close>

definition runner_blobs :: "ProtobufModel \<Rightarrow> caffe2 \<Rightarrow> (string \<rightharpoonup> blob)" where
  "runner_blobs self c = blobs (workspaces c (ws_name self))"


section \<open>Auxiliary definitions\<close>

text \<open>
  What the \<^verbatim>\<open>except\<close> branch does to the runner and to the log, as functions of the
  outcome of the run.
\<close>

definition caught :: "exn option \<Rightarrow> ProtobufModel \<Rightarrow> ProtobufModel" where
  "caught r self = (case r of Some (RuntimeError m) \<Rightarrow> self\<lparr>error_msgs := insert m (error_msgs self)\<rparr> | _ \<Rightarrow> self)"

definition caught_log :: "exn option \<Rightarrow> ProtobufModel \<Rightarrow> (log_level \<times> string) list" where
  "caught_log r self = (case r of Some (RuntimeError m) \<Rightarrow>
      (if m \<in> error_msgs self then [] else [(WARNING, new_error_warning m)])
       @ [(WARNING, ''Catch the error and use partial results.'')] | _ \<Rightarrow> [])"

text \<open>The elements of a list in the order of their first occurrence, without those seen.\<close>

fun uniq :: "'a list \<Rightarrow> 'a list \<Rightarrow> 'a list" where
  "uniq seen [] = []"
| "uniq seen (x # xs) = (if x \<in> set seen then uniq seen xs else x # uniq (seen @ [x]) xs)"

text \<open>
  The blobs of a workspace once every name of a list that had no blob has an
  uninitialized one: what the loop of the constructor leaves.
\<close>

definition with_placeholders :: "string list \<Rightarrow> (string \<rightharpoonup> blob) \<Rightarrow> (string \<rightharpoonup> blob)" where
  "with_placeholders bs m = (\<lambda>b. if b \<in> set bs \<and> m b = None then Some UninitializedBlob else m b)"

text \<open>
  The workspace that the constructor of the runner leaves under its name, as a
  function of the engine and the two graphs only.
\<close>

definition built_workspace :: "engine \<Rightarrow> NetDef \<Rightarrow> NetDef \<Rightarrow> workspace" where
  "built_workspace eng p i =
     (case run_ops eng i Map.empty of
        (Some m, bs1) \<Rightarrow> \<lparr>blobs = bs1, nets = Map.empty\<rparr>
      | (None, bs1) \<Rightarrow>
          (case create_ops eng p (with_placeholders (external_input p) bs1) of
             (Some m, bs2) \<Rightarrow> \<lparr>blobs = bs2, nets = Map.empty\<rparr>
           | (None, bs2) \<Rightarrow> \<lparr>blobs = bs2, nets = [name p \<mapsto> p]\<rparr>))"

section \<open>An example graph, engine and process\<close>

text \<open>
  A one-operator graph with inputs \<^verbatim>\<open>data\<close> and \<^verbatim>\<open>im_info\<close> and output \<^verbatim>\<open>scores\<close>, and an
  engine that copies \<^verbatim>\<open>data\<close> to \<^verbatim>\<open>scores\<close> and raises when \<^verbatim>\<open>data\<close> holds no tensor or a
  tensor without dimensions.
\<close>

definition demo_tensor :: tensor where
  "demo_tensor = \<lparr>shape = [1, 3, 2, 2], elem = (\<lambda>idx. 0)\<rparr>"

definition demo_predict_net :: NetDef where
  "demo_predict_net =
     \<lparr>name = ''net'',
      op = [\<lparr>op_type = ''Conv'', op_input = [''data'', ''im_info''], op_output = [''scores'']\<rparr>],
      external_input = [''data'', ''im_info''],
      external_output = [''scores''],
      arg = [\<lparr>arg_name = ''size_divisibility'', arg_i = 32, arg_s = []\<rparr>]\<rparr>"

definition demo_init_net :: NetDef where
  "demo_init_net =
     \<lparr>name = ''init'', op = [], external_input = [], external_output = [], arg = []\<rparr>"

definition demo_engine :: engine where
  "demo_engine =
     \<lparr>run_ops = (\<lambda>n bs.
        if op n = [] then (None, bs)
        else (case bs ''data'' of
                Some (TensorBlob t) \<Rightarrow>
                  if shape t = [] then (Some ''data has no dimensions'', bs)
                  else (None, bs(''scores'' \<mapsto> TensorBlob t))
              | _ \<Rightarrow> (Some ''data is not a tensor'', bs))),
      create_ops = (\<lambda>n bs. (None, bs(''scores'' \<mapsto> UninitializedBlob)))\<rparr>"

definition fresh_process :: caffe2 where
  "fresh_process =
     \<lparr>workspaces = (\<lambda>w. empty_workspace), current = ''default'', calls = [], log = []\<rparr>"

definition demo_model :: ProtobufModel where
  "demo_model = \<lparr>ws_name = ''__ws_tmp__'', net = demo_predict_net, error_msgs = {}\<rparr>"

definition demo_state :: caffe2 where
  "demo_state =
     snd (ProtobufModel_init demo_engine (NetDefObj demo_predict_net) (NetDefObj demo_init_net)
            fresh_process)"

text \<open>A tensor without dimensions, and the process after one successful call.\<close>

definition demo_scalar :: tensor where
  "demo_scalar = \<lparr>shape = [], elem = (\<lambda>idx. 0)\<rparr>"

definition demo_state1 :: caffe2 where
  "demo_state1 = snd (snd (ProtobufModel_forward demo_engine demo_model
       (Some [(''data'', demo_tensor), (''im_info'', demo_tensor)]) demo_state))"

text \<open>
  A second graph, graphs whose architecture tag is unknown or not ASCII, and a
  registry that knows one architecture.
\<close>

definition demo_other_net :: NetDef where
  "demo_other_net =
     \<lparr>name = ''other'',
      op = [\<lparr>op_type = ''Relu'', op_input = [''data''], op_output = [''scores'']\<rparr>],
      external_input = [''data''],
      external_output = [''scores''],
      arg = []\<rparr>"

definition demo_latin1_net :: NetDef where
  "demo_latin1_net =
     demo_predict_net\<lparr>arg := [\<lparr>arg_name = ''meta_architecture'', arg_i = 0,
                                 arg_s = [CHR 0xE9]\<rparr>]\<rparr>"

definition demo_unknown_net :: NetDef where
  "demo_unknown_net =
     demo_predict_net\<lparr>arg := [\<lparr>arg_name = ''meta_architecture'', arg_i = 0,
                                 arg_s = ''PanopticFPN''\<rparr>]\<rparr>"

definition demo_registry :: "nat meta_arch_map" where
  "demo_registry =
     [''GeneralizedRCNN'' \<mapsto> (\<lambda>predict_net init_net batched_inputs c2_inputs c2_results.
         Inr (length c2_results))]"

text \<open>
  One image of 3 channels, 70 rows and 100 columns, and the detection model that the
  constructor builds from the example graph.
\<close>

definition demo_input :: batched_input where
  "demo_input =
     \<lparr>image_t = \<lparr>shape = [3, 70, 100], elem = (\<lambda>idx. 0)\<rparr>, height = None, width = None\<rparr>"

definition demo_detection_model :: "nat ProtobufDetectionModel" where
  "demo_detection_model =
     \<lparr>protobuf_model = demo_model, size_divisibility = 32,
      convert_outputs = (\<lambda>batched_inputs c2_inputs c2_results. Inr (length c2_results))\<rparr>"

text \<open>
  An engine whose \<^verbatim>\<open>CreateNet\<close> creates a blob for every operator output and that runs
  graphs as the example engine does, a graph with the output \<^verbatim>\<open>boxes\<close>, and the process
  after a runner for the example graph and then a runner for that graph have been
  constructed.
\<close>

definition tidy_engine :: engine where
  "tidy_engine =
     \<lparr>run_ops = run_ops demo_engine,
      create_ops = (\<lambda>n bs.
        (None, fold (\<lambda>b m. if m b = None then m(b \<mapsto> UninitializedBlob) else m)
                 (concat (map op_output (op n))) bs))\<rparr>"

definition demo_boxes_net :: NetDef where
  "demo_boxes_net =
     \<lparr>name = ''boxes_net'',
      op = [\<lparr>op_type = ''Conv'', op_input = [''data''], op_output = [''boxes'']\<rparr>],
      external_input = [''data''],
      external_output = [''boxes''],
      arg = []\<rparr>"

definition demo_shared_state :: caffe2 where
  "demo_shared_state =
     snd (ProtobufModel_init tidy_engine (NetDefObj demo_boxes_net) (NetDefObj demo_init_net)
       (snd (ProtobufModel_init tidy_engine (NetDefObj demo_predict_net) (NetDefObj demo_init_net)
               fresh_process)))"

section \<open>Workspace lemmas\<close>

lemma cur_blobs_set_blobs [simp]: "cur_blobs (set_blobs bs c) = bs"
  by (simp add: cur_blobs_def set_blobs_def)

lemma cur_blobs_record_call [simp]: "cur_blobs (record_call e c) = cur_blobs c"
  by (simp add: cur_blobs_def record_call_def)

lemma cur_blobs_logger_warning [simp]: "cur_blobs (logger_warning m c) = cur_blobs c"
  by (simp add: cur_blobs_def logger_warning_def)

lemma cur_blobs_FeedBlob [simp]: "cur_blobs (FeedBlob b v c) = (cur_blobs c)(b \<mapsto> v)"
  by (simp add: FeedBlob_def)

lemma current_FeedBlob [simp]: "current (FeedBlob b v c) = current c"
  by (simp add: FeedBlob_def record_call_def set_blobs_def)

lemma log_FeedBlob [simp]: "log (FeedBlob b v c) = log c"
  by (simp add: FeedBlob_def record_call_def set_blobs_def)

lemma FetchBlob_frame:
  "FetchBlob b c = (r, c') \<Longrightarrow> workspaces c' = workspaces c \<and> current c' = current c \<and> log c' = log c"
  by (auto simp: FetchBlob_def record_call_def)

lemma fetch_outputs_frame:
  "fetch_outputs bs c = (r, c') \<Longrightarrow> workspaces c' = workspaces c \<and> current c' = current c \<and> log c' = log c"
proof (induction bs arbitrary: c r c')
  case Nil
  then show ?case by simp
next
  case (Cons b bs)
  obtain r1 c1 where f: "FetchBlob b c = (r1, c1)" by (cases "FetchBlob b c")
  note fr = FetchBlob_frame [OF f]
  show ?case
  proof (cases r1)
    case (Inl e)
    with Cons.prems f fr show ?thesis by simp
  next
    case (Inr v)
    obtain r2 c2 where g: "fetch_outputs bs c1 = (r2, c2)" by (cases "fetch_outputs bs c1")
    from Cons.IH [OF g] fr have "workspaces c2 = workspaces c \<and> current c2 = current c \<and> log c2 = log c"
      by simp
    with Cons.prems f g Inr show ?thesis by (auto split: sum.splits)
  qed
qed

lemma fetch_outputs_blobs: "fetch_outputs bs c = (r, c') \<Longrightarrow> cur_blobs c' = cur_blobs c"
  by (drule fetch_outputs_frame) (simp add: cur_blobs_def)

lemma cur_blobs_FetchBlob: "FetchBlob b c = (r, c') \<Longrightarrow> cur_blobs c' = cur_blobs c"
  by (drule FetchBlob_frame) (simp add: cur_blobs_def)

lemma fetch_outputs_result:
  "fst (fetch_outputs bs c) =
     (if set bs \<subseteq> dom (cur_blobs c) then Inr (map (\<lambda>b. (b, the (cur_blobs c b))) bs)
      else Inl (RuntimeError (''Can't find blob: '' @ hd (filter (\<lambda>b. b \<notin> dom (cur_blobs c)) bs))))"
proof (induction bs arbitrary: c)
  case Nil
  then show ?case by simp
next
  case (Cons b bs)
  obtain r1 c1 where f: "FetchBlob b c = (r1, c1)" by (cases "FetchBlob b c")
  have c1: "cur_blobs c1 = cur_blobs c" by (rule cur_blobs_FetchBlob [OF f])
  have r1: "r1 = (case cur_blobs c b of None \<Rightarrow> Inl (RuntimeError (''Can't find blob: '' @ b)) | Some v \<Rightarrow> Inr v)"
    using f by (simp add: FetchBlob_def)
  show ?case
  proof (cases "cur_blobs c b")
    case None
    with f r1 show ?thesis by (auto simp: domIff)
  next
    case (Some v)
    with r1 have "r1 = Inr v" by simp
    with f Some Cons.IH [of c1] c1 show ?thesis
      by (cases "fetch_outputs bs c1") (auto split: sum.splits simp: domIff)
  qed
qed

lemma od_keys: "map fst (od_setitem d k v) = (if k \<in> set (map fst d) then map fst d else map fst d @ [k])"
  by (induction d k v rule: od_setitem.induct) auto

lemma od_setitem_set: "set (od_setitem d k v) \<subseteq> insert (k, v) (set d)"
  by (induction d k v rule: od_setitem.induct) auto

lemma od_setitem_distinct: "distinct (map fst d) \<Longrightarrow> distinct (map fst (od_setitem d k v))"
  by (simp add: od_keys)

lemma foldl_od_keys:
  "map fst (foldl (\<lambda>d (k, v). od_setitem d k v) d0 items) = map fst d0 @ uniq (map fst d0) (map fst items)"
  by (induction items arbitrary: d0) (auto simp: od_keys split: prod.splits)

lemma uniq_set: "set (uniq seen xs) = set xs - set seen"
  by (induction xs arbitrary: seen) auto

lemma uniq_distinct: "distinct (uniq seen xs)"
  by (induction xs arbitrary: seen) (auto simp: uniq_set)

lemma uniq_subseq: "subseq (uniq seen xs) xs"
  by (induction xs arbitrary: seen) auto

lemma uniq_id: "distinct xs \<Longrightarrow> set xs \<inter> set seen = {} \<Longrightarrow> uniq seen xs = xs"
  by (induction xs arbitrary: seen) auto

lemma OrderedDict_keys: "map fst (OrderedDict items) = uniq [] (map fst items)"
  by (simp add: OrderedDict_def foldl_od_keys)

lemma foldl_od_set: "set (foldl (\<lambda>d (k, v). od_setitem d k v) d0 items) \<subseteq> set d0 \<union> set items"
proof (induction items arbitrary: d0)
  case Nil
  then show ?case by simp
next
  case (Cons a items)
  obtain k v where a: "a = (k, v)" by (cases a)
  have "set (foldl (\<lambda>d (k, v). od_setitem d k v) (od_setitem d0 k v) items) \<subseteq> set (od_setitem d0 k v) \<union> set items"
    by (rule Cons.IH)
  with od_setitem_set [of d0 k v] show ?case unfolding a by auto
qed

lemma OrderedDict_set: "set (OrderedDict items) \<subseteq> set items"
  using foldl_od_set [of "[]" items] by (simp add: OrderedDict_def)

lemma RunNet_exn: "RunNet eng nm c = (Some e, c') \<Longrightarrow> \<exists>m. e = RuntimeError m"
  by (auto simp: RunNet_def split: option.splits prod.splits)

lemma RunNet_frame: "RunNet eng nm c = (r, c') \<Longrightarrow> current c' = current c \<and> log c' = log c
   \<and> (\<forall>w. w \<noteq> current c \<longrightarrow> workspaces c' w = workspaces c w) \<and> cur_nets c' = cur_nets c"
  by (auto simp: RunNet_def record_call_def set_blobs_def cur_nets_def split: option.splits prod.splits)

lemma try_RunNet_eq:
  assumes "RunNet eng (name (net self)) c = (r, c1)"
  shows "try_RunNet eng self c = (None, caught r self, c1\<lparr>log := log c1 @ caught_log r self\<rparr>)"
proof (cases r)
  case None
  with assms show ?thesis by (simp add: try_RunNet_def caught_def caught_log_def)
next
  case (Some e)
  with assms RunNet_exn [of eng "name (net self)" c e c1] obtain m where "e = RuntimeError m" by auto
  with assms Some show ?thesis
    by (simp add: try_RunNet_def caught_def caught_log_def except_RuntimeError_def logger_warning_def insert_absorb)
qed

lemma forward_valid:
  assumes v: "list_all (\<lambda>inp. inp \<in> set (external_input (net self))) (map fst d)"
    and g: "graph_run eng self d c = (r, c1)"
  shows "ProtobufModel_forward eng self (Some d) c =
     (case fetch_outputs (external_output (net self)) (c1\<lparr>log := log c1 @ caught_log r self\<rparr>) of
        (Inl e, c3) \<Rightarrow> (Inl e, caught r self, SwitchWorkspace (current c) c3)
      | (Inr items, c3) \<Rightarrow> (Inr (OrderedDict items), caught r self,
            SwitchWorkspace (current c) (reset_outputs (external_output (net self)) c3)))"
  using v g try_RunNet_eq [of eng self "feed_inputs d (SwitchWorkspace (ws_name self) c)" r c1]
  by (simp add: ProtobufModel_forward_def ScopedWS_def ScopedWS_enter_def ScopedWS_exit_def
      forward_body_def graph_run_def split: prod.splits sum.splits)

lemma feed_inputs_frame [simp]:
  "current (feed_inputs d c) = current c" "log (feed_inputs d c) = log c"
  by (induction d c rule: feed_inputs.induct) auto

lemma reset_outputs_frame [simp]:
  "current (reset_outputs bs c) = current c" "log (reset_outputs bs c) = log c"
  by (induction bs c rule: reset_outputs.induct) auto

lemma reset_outputs_blobs:
  "cur_blobs (reset_outputs bs c) b =
     (if b \<in> set bs then Some (StringBlob (uninitialized_str b)) else cur_blobs c b)"
  by (induction bs c rule: reset_outputs.induct) auto

lemma feed_inputs_blobs_other:
  "b \<notin> set (map fst d) \<Longrightarrow> cur_blobs (feed_inputs d c) b = cur_blobs c b"
  by (induction d c rule: feed_inputs.induct) auto

lemma graph_run_frame:
  "graph_run eng self d c = (r, c1) \<Longrightarrow> current c1 = ws_name self \<and> log c1 = log c"
  by (auto simp: graph_run_def ScopedWS_enter_def SwitchWorkspace_def dest!: RunNet_frame)

lemma forward_returns:
  assumes v: "list_all (\<lambda>inp. inp \<in> set (external_input (net self))) (map fst d)"
    and g: "graph_run eng self d c = (r, c1)"
    and a: "set (external_output (net self)) \<subseteq> dom (cur_blobs c1)"
  shows "\<exists>c'. ProtobufModel_forward eng self (Some d) c =
     (Inr (OrderedDict (map (\<lambda>b. (b, the (cur_blobs c1 b))) (external_output (net self)))),
      caught r self, c')
     \<and> log c' = log c @ caught_log r self \<and> current c' = current c
     \<and> runner_blobs self c' = (\<lambda>b. if b \<in> set (external_output (net self))
           then Some (StringBlob (uninitialized_str b)) else cur_blobs c1 b)"
proof -
  let ?c2 = "c1\<lparr>log := log c1 @ caught_log r self\<rparr>"
  let ?out = "external_output (net self)"
  have b2: "cur_blobs ?c2 = cur_blobs c1" by (simp add: cur_blobs_def)
  obtain r3 c3 where f: "fetch_outputs ?out ?c2 = (r3, c3)" by (cases "fetch_outputs ?out ?c2")
  from fetch_outputs_result [of ?out ?c2] f a b2
  have r3: "r3 = Inr (map (\<lambda>b. (b, the (cur_blobs c1 b))) ?out)" by simp
  note fr = fetch_outputs_frame [OF f] graph_run_frame [OF g]
  have b3: "cur_blobs c3 = cur_blobs c1" using fetch_outputs_blobs [OF f] b2 by simp
  let ?c' = "SwitchWorkspace (current c) (reset_outputs ?out c3)"
  have "ProtobufModel_forward eng self (Some d) c =
     (Inr (OrderedDict (map (\<lambda>b. (b, the (cur_blobs c1 b))) ?out)), caught r self, ?c')"
    using forward_valid [OF v g] f r3 by simp
  moreover have "log ?c' = log c @ caught_log r self" using fr by (simp add: SwitchWorkspace_def)
  moreover have "current ?c' = current c" by (simp add: SwitchWorkspace_def)
  moreover have "runner_blobs self ?c' = (\<lambda>b. if b \<in> set ?out
           then Some (StringBlob (uninitialized_str b)) else cur_blobs c1 b)"
  proof
    fix b
    have "runner_blobs self ?c' b = cur_blobs (reset_outputs ?out c3) b"
      using fr by (simp add: runner_blobs_def SwitchWorkspace_def cur_blobs_def)
    then show "runner_blobs self ?c' b = (if b \<in> set ?out
           then Some (StringBlob (uninitialized_str b)) else cur_blobs c1 b)"
      by (simp add: reset_outputs_blobs b3)
  qed
  ultimately show ?thesis by blast
qed

lemma forward_Inr_outputs_present:
  assumes "ProtobufModel_forward eng self (Some d) c = (Inr outs, self', c')"
  shows "list_all (\<lambda>inp. inp \<in> set (external_input (net self))) (map fst d)
     \<and> set (external_output (net self)) \<subseteq> dom (cur_blobs (snd (graph_run eng self d c)))"
proof -
  have v: "list_all (\<lambda>inp. inp \<in> set (external_input (net self))) (map fst d)"
    using assms by (auto simp: ProtobufModel_forward_def split: if_splits)
  obtain r c1 where g: "graph_run eng self d c = (r, c1)" by (cases "graph_run eng self d c")
  let ?c2 = "c1\<lparr>log := log c1 @ caught_log r self\<rparr>"
  let ?out = "external_output (net self)"
  have b2: "cur_blobs ?c2 = cur_blobs c1" by (simp add: cur_blobs_def)
  obtain r3 c3 where f: "fetch_outputs ?out ?c2 = (r3, c3)" by (cases "fetch_outputs ?out ?c2")
  from forward_valid [OF v g] f assms obtain items where "r3 = Inr items"
    by (cases r3) auto
  with fetch_outputs_result [of ?out ?c2] f b2 have "set ?out \<subseteq> dom (cur_blobs c1)"
    by (auto split: if_splits)
  with v g show ?thesis by simp
qed

lemma map_of_OrderedDict:
  "map_of (OrderedDict (map (\<lambda>b. (b, f b)) bs)) b = (if b \<in> set bs then Some (f b) else None)"
proof -
  let ?items = "map (\<lambda>b. (b, f b)) bs"
  have keys: "map fst (OrderedDict ?items) = uniq [] bs"
    by (simp add: OrderedDict_keys comp_def)
  have dist: "distinct (map fst (OrderedDict ?items))" by (simp add: keys uniq_distinct)
  have ks: "fst ` set (OrderedDict ?items) = set bs"
    using arg_cong [OF keys, of set] by (simp add: uniq_set)
  show ?thesis
  proof (cases "b \<in> set bs")
    case True
    with ks obtain v where m: "(b, v) \<in> set (OrderedDict ?items)" by force
    with OrderedDict_set [of ?items] have "v = f b" by auto
    with m dist True show ?thesis by simp
  next
    case False
    with ks have "b \<notin> fst ` set (OrderedDict ?items)" by simp
    with False show ?thesis by (simp add: map_of_eq_None_iff)
  qed
qed

lemma caught_fields [simp]: "net (caught r self) = net self" "ws_name (caught r self) = ws_name self"
  by (auto simp: caught_def split: option.splits exn.splits)



lemma new_error_warning_inj: "new_error_warning m = new_error_warning m' \<Longrightarrow> m = m'"
  by (simp add: new_error_warning_def)




lemmas ws_defs = ScopedWS_def ScopedWS_enter_def ScopedWS_exit_def SwitchWorkspace_def
  ResetWorkspace_def RunNetOnce_def CreateNet_def CreateBlob_def FeedBlob_def FetchBlob_def
  RunNet_def Blobs_def cur_blobs_def cur_nets_def set_blobs_def set_nets_def record_call_def
  logger_info_def logger_warning_def empty_workspace_def Let_def

lemmas demo_defs = demo_tensor_def demo_predict_net_def demo_init_net_def demo_engine_def
  fresh_process_def demo_model_def

lemma demo_init:
  "ProtobufModel_init demo_engine (NetDefObj demo_predict_net) (NetDefObj demo_init_net)
     fresh_process = (Inr demo_model, demo_state)"
  by (simp add: demo_state_def ProtobufModel_init_def init_body_def core_Net_def ws_defs demo_defs)

lemma demo_state_eq:
  "demo_state =
     \<lparr>workspaces = (\<lambda>w. empty_workspace)
        (''__ws_tmp__'' :=
           \<lparr>blobs = [''data'' \<mapsto> UninitializedBlob, ''im_info'' \<mapsto> UninitializedBlob,
                      ''scores'' \<mapsto> UninitializedBlob],
            nets = [''net'' \<mapsto> demo_predict_net]\<rparr>),
      current = ''default'',
      calls = [Call_RunNetOnce ''init'', Call_CreateBlob ''data'', Call_CreateBlob ''im_info'',
               Call_CreateNet ''net''],
      log = [(INFO, ''Initializing ProtobufModel ...'')]\<rparr>"
  by (simp add: demo_state_def ProtobufModel_init_def init_body_def core_Net_def ws_defs demo_defs)

lemma valid_keys:
  "set (map fst d) \<subseteq> set (external_input (net self))
     \<Longrightarrow> list_all (\<lambda>inp. inp \<in> set (external_input (net self))) (map fst d)"
  by (auto simp: list_all_iff)


lemma runner_blobs_caught [simp]: "runner_blobs (caught r self) c = runner_blobs self c"
  by (simp add: runner_blobs_def)

lemmas fwd_defs = ProtobufModel_forward_def forward_body_def try_RunNet_def
  except_RuntimeError_def OrderedDict_def new_error_warning_def

lemma demo_first:
  "ProtobufModel_forward demo_engine demo_model
       (Some [(''data'', demo_tensor), (''im_info'', demo_tensor)]) demo_state
     = (Inr [(''scores'', TensorBlob demo_tensor)], demo_model, demo_state1)"
  unfolding demo_state1_def
  by (simp add: fwd_defs ws_defs demo_defs demo_state_eq)

lemma demo_second:
  "fst (ProtobufModel_forward demo_engine demo_model (Some [(''data'', demo_scalar)]) demo_state1)
     = Inr [(''scores'', StringBlob (uninitialized_str ''scores''))]"
  unfolding demo_state1_def
  by (simp add: fwd_defs ws_defs demo_defs demo_state_eq demo_scalar_def)

text \<open>
  When the engine never removes a blob, the declared outputs that the workspace of the
  runner has are still there after the run; and a call that returns leaves all of them
  there.
\<close>

lemma dom_feed_inputs: "dom (cur_blobs (feed_inputs d c)) = dom (cur_blobs c) \<union> set (map fst d)"
  by (induction d c rule: feed_inputs.induct) auto

lemma cur_blobs_RunNet:
  "cur_blobs (snd (RunNet eng nm c))
     = (case cur_nets c nm of None \<Rightarrow> cur_blobs c | Some n \<Rightarrow> snd (run_ops eng n (cur_blobs c)))"
  by (simp add: RunNet_def split: option.splits prod.splits)

lemma outputs_stay_available:
  assumes k: "\<forall>n bs. dom bs \<subseteq> dom (snd (run_ops eng n bs))"
    and a: "set (external_output (net self)) \<subseteq> dom (runner_blobs self c)"
  shows "set (external_output (net self)) \<subseteq> dom (cur_blobs (snd (graph_run eng self d c)))"
proof -
  let ?c0 = "snd (ScopedWS_enter (ws_name self) False c)"
  let ?fed = "feed_inputs d ?c0"
  have "cur_blobs ?c0 = runner_blobs self c"
    by (simp add: ScopedWS_enter_def SwitchWorkspace_def cur_blobs_def runner_blobs_def)
  with a have f: "set (external_output (net self)) \<subseteq> dom (cur_blobs ?fed)"
    by (auto simp: dom_feed_inputs)
  have "dom (cur_blobs ?fed) \<subseteq> dom (cur_blobs (snd (RunNet eng (name (net self)) ?fed)))"
    using k by (simp add: cur_blobs_RunNet split: option.splits)
  with f show ?thesis unfolding graph_run_def by blast
qed

lemma forward_keeps_outputs_available:
  assumes "ProtobufModel_forward eng self (Some d) c = (Inr outs, self', c')"
  shows "set (external_output (net self')) \<subseteq> dom (runner_blobs self' c')"
proof -
  obtain r c1 where g: "graph_run eng self d c = (r, c1)" by (cases "graph_run eng self d c")
  from forward_Inr_outputs_present [OF assms] g
  have v: "list_all (\<lambda>inp. inp \<in> set (external_input (net self))) (map fst d)"
    and a: "set (external_output (net self)) \<subseteq> dom (cur_blobs c1)" by simp_all
  from forward_returns [OF v g a] assms
  have s: "self' = caught r self"
    and rb: "runner_blobs self c' = (\<lambda>b. if b \<in> set (external_output (net self))
           then Some (StringBlob (uninitialized_str b)) else cur_blobs c1 b)"
    by auto
  show ?thesis by (auto simp: s rb)
qed

section \<open>Constructor lemmas\<close>

lemma create_missing_inputs_eq:
  "\<exists>created. distinct created \<and> set created = {b \<in> set bs. cur_blobs c b = None}
     \<and> create_missing_inputs bs c
         = set_blobs (with_placeholders bs (cur_blobs c))
             (c\<lparr>calls := calls c @ map Call_CreateBlob created\<rparr>)"
proof (induction bs arbitrary: c)
  case Nil
  have "c = set_blobs (cur_blobs c) c"
    by (simp add: set_blobs_def cur_blobs_def)
  then show ?case by (simp add: with_placeholders_def)
next
  case (Cons b bs)
  show ?case
  proof (cases "cur_blobs c b")
    case (Some v)
    from Cons.IH [of c] obtain created where
      c: "distinct created" "set created = {b \<in> set bs. cur_blobs c b = None}"
        "create_missing_inputs bs c = set_blobs (with_placeholders bs (cur_blobs c))
             (c\<lparr>calls := calls c @ map Call_CreateBlob created\<rparr>)" by blast
    have w: "with_placeholders (b # bs) (cur_blobs c) = with_placeholders bs (cur_blobs c)"
      using Some by (auto simp: with_placeholders_def fun_eq_iff)
    have "set created = {x \<in> set (b # bs). cur_blobs c x = None}" using c(2) Some by auto
    with c(1,3) Some w show ?thesis by (auto simp: Blobs_def domIff)
  next
    case None
    let ?c1 = "CreateBlob b c"
    have b1: "cur_blobs ?c1 = (cur_blobs c)(b \<mapsto> UninitializedBlob)"
      using None by (simp add: CreateBlob_def)
    from Cons.IH [of ?c1] obtain created where
      c: "distinct created" "set created = {x \<in> set bs. cur_blobs ?c1 x = None}"
        "create_missing_inputs bs ?c1 = set_blobs (with_placeholders bs (cur_blobs ?c1))
             (?c1\<lparr>calls := calls ?c1 @ map Call_CreateBlob created\<rparr>)" by blast
    have w: "with_placeholders bs (cur_blobs ?c1) = with_placeholders (b # bs) (cur_blobs c)"
      using None by (auto simp: with_placeholders_def b1 fun_eq_iff)
    have d: "distinct (b # created)" using c(1,2) by (simp add: b1)
    have s: "set (b # created) = {x \<in> set (b # bs). cur_blobs c x = None}"
      using c(2) None by (auto simp: b1)
    have e: "create_missing_inputs (b # bs) c = set_blobs (with_placeholders (b # bs) (cur_blobs c))
             (c\<lparr>calls := calls c @ map Call_CreateBlob (b # created)\<rparr>)"
      using None c(3) w
      by (simp add: Blobs_def domIff) (simp add: CreateBlob_def None set_blobs_def record_call_def cur_blobs_def)
    from d s e show ?thesis by blast
  qed
qed

lemma init_workspace:
  "workspaces (snd (ProtobufModel_init eng (NetDefObj p) (NetDefObj i) c)) ''__ws_tmp__''
     = built_workspace eng p i"
proof -
  let ?c0 = "logger_info ''Initializing ProtobufModel ...'' c"
  let ?c1 = "ResetWorkspace (SwitchWorkspace ''__ws_tmp__'' ?c0)"
  obtain r1 bs1 where r1: "run_ops eng i Map.empty = (r1, bs1)" by (cases "run_ops eng i Map.empty")
  let ?c2 = "record_call (Call_RunNetOnce (name i)) (set_blobs bs1 ?c1)"
  have e1: "cur_blobs ?c1 = Map.empty"
    by (simp add: cur_blobs_def ResetWorkspace_def SwitchWorkspace_def empty_workspace_def)
  have run: "RunNetOnce eng i ?c1 = (map_option RuntimeError r1, ?c2)"
    by (simp add: RunNetOnce_def e1 r1)
  have org: "ScopedWS_enter ''__ws_tmp__'' True ?c0 = (current c, ?c1)"
    by (simp add: ScopedWS_enter_def logger_info_def SwitchWorkspace_def ResetWorkspace_def)
  show ?thesis
  proof (cases r1)
    case (Some m)
    have body: "init_body eng p i ?c1 = (Some (RuntimeError m), ?c2)"
      by (simp add: init_body_def run Some)
    have "snd (ProtobufModel_init eng (NetDefObj p) (NetDefObj i) c)
        = ScopedWS_exit (current c) False ?c2"
      by (simp add: ProtobufModel_init_def core_Net_def ScopedWS_def org body)
    then show ?thesis
      by (simp add: built_workspace_def r1 Some ws_defs)
  next
    case None
    have b2: "cur_blobs ?c2 = bs1" by simp
    from create_missing_inputs_eq [of "external_input p" ?c2] obtain created where
      e: "create_missing_inputs (external_input p) ?c2
         = set_blobs (with_placeholders (external_input p) bs1)
             (?c2\<lparr>calls := calls ?c2 @ map Call_CreateBlob created\<rparr>)"
      unfolding b2 by blast
    let ?c3 = "set_blobs (with_placeholders (external_input p) bs1)
             (?c2\<lparr>calls := calls ?c2 @ map Call_CreateBlob created\<rparr>)"
    obtain r2 bs2 where r2: "create_ops eng p (with_placeholders (external_input p) bs1) = (r2, bs2)"
      by (cases "create_ops eng p (with_placeholders (external_input p) bs1)")
    obtain r4 c4 where c4: "CreateNet eng p ?c3 = (r4, c4)" by (cases "CreateNet eng p ?c3")
    have cn: "workspaces c4 ''__ws_tmp__'' = built_workspace eng p i"
      using c4 by (cases r2) (auto simp: built_workspace_def r1 r2 None CreateNet_def ws_defs)
    have body: "init_body eng p i ?c1 = (r4, c4)"
      by (simp add: init_body_def run None e c4)
    have "snd (ProtobufModel_init eng (NetDefObj p) (NetDefObj i) c)
        = ScopedWS_exit (current c) False c4"
      by (cases r4) (simp_all add: ProtobufModel_init_def core_Net_def ScopedWS_def org body)
    then show ?thesis by (simp add: ScopedWS_exit_def SwitchWorkspace_def cn)
  qed
qed

lemma init_Inr_args:
  assumes "ProtobufModel_init eng predict_net init_net c = (Inr self, c')"
  shows "\<exists>p i. predict_net = NetDefObj p \<and> init_net = NetDefObj i \<and> ws_name self = ''__ws_tmp__''
     \<and> net self = p \<and> nets (built_workspace eng p i) = [name p \<mapsto> p]"
proof -
  from assms obtain p i where a: "predict_net = NetDefObj p" "init_net = NetDefObj i"
    by (cases predict_net; cases init_net) (auto simp: ProtobufModel_init_def)
  let ?c0 = "logger_info ''Initializing ProtobufModel ...'' c"
  obtain r cb where b: "ScopedWS ''__ws_tmp__'' True False (init_body eng p i) ?c0 = (r, cb)"
    by (cases "ScopedWS ''__ws_tmp__'' True False (init_body eng p i) ?c0")
  from assms a b have s: "self = \<lparr>ws_name = ''__ws_tmp__'', net = p, error_msgs = {}\<rparr>" "r = None"
    by (cases r; simp add: ProtobufModel_init_def core_Net_def)+
  obtain org c1 where en: "ScopedWS_enter ''__ws_tmp__'' True ?c0 = (org, c1)"
    by (cases "ScopedWS_enter ''__ws_tmp__'' True ?c0")
  have e1: "cur_blobs c1 = Map.empty"
    using en by (auto simp: ScopedWS_enter_def cur_blobs_def ResetWorkspace_def SwitchWorkspace_def empty_workspace_def)
  obtain rb c2 where ib: "init_body eng p i c1 = (rb, c2)" by (cases "init_body eng p i c1")
  from b en ib s(2) have rb: "rb = None" by (simp add: ScopedWS_def)
  obtain r1 bs1 where r1: "run_ops eng i Map.empty = (r1, bs1)" by (cases "run_ops eng i Map.empty")
  have r1n: "r1 = None"
    using ib rb r1 e1 by (cases r1) (auto simp: init_body_def RunNetOnce_def)
  obtain r2 bs2 where r2: "create_ops eng p (with_placeholders (external_input p) bs1) = (r2, bs2)"
    by (cases "create_ops eng p (with_placeholders (external_input p) bs1)")
  let ?c2 = "record_call (Call_RunNetOnce (name i)) (set_blobs bs1 c1)"
  from create_missing_inputs_eq [of "external_input p" ?c2] obtain created where
      e: "create_missing_inputs (external_input p) ?c2
         = set_blobs (with_placeholders (external_input p) bs1)
             (?c2\<lparr>calls := calls ?c2 @ map Call_CreateBlob created\<rparr>)"
    by auto
  have r2n: "r2 = None"
    using ib rb r1 r1n e1 r2 e by (cases r2) (auto simp: init_body_def RunNetOnce_def CreateNet_def)
  have "nets (built_workspace eng p i) = [name p \<mapsto> p]"
    by (simp add: built_workspace_def r1 r1n r2 r2n)
  with a s show ?thesis by simp
qed

lemma init_Inr_NetDef:
  "ProtobufModel_init eng predict_net init_net c = (Inr pm, c1)
     \<Longrightarrow> \<exists>p. predict_net = NetDefObj p"
  by (cases predict_net) (auto simp: ProtobufModel_init_def)

lemmas tidy_defs = tidy_engine_def demo_boxes_net_def

lemma tidy_first:
  "ProtobufModel_init tidy_engine (NetDefObj demo_predict_net) (NetDefObj demo_init_net)
     fresh_process = (Inr demo_model, demo_state)"
  by (simp add: demo_state_eq ProtobufModel_init_def init_body_def core_Net_def ws_defs demo_defs
      tidy_defs)

lemma demo_shared_state_eq:
  "demo_shared_state =
     \<lparr>workspaces = (\<lambda>w. empty_workspace)
        (''__ws_tmp__'' :=
           \<lparr>blobs = [''data'' \<mapsto> UninitializedBlob, ''boxes'' \<mapsto> UninitializedBlob],
            nets = [''boxes_net'' \<mapsto> demo_boxes_net]\<rparr>),
      current = ''default'',
      calls = [Call_RunNetOnce ''init'', Call_CreateBlob ''data'', Call_CreateBlob ''im_info'',
               Call_CreateNet ''net'', Call_RunNetOnce ''init'', Call_CreateBlob ''data'',
               Call_CreateNet ''boxes_net''],
      log = [(INFO, ''Initializing ProtobufModel ...''),
             (INFO, ''Initializing ProtobufModel ...'')]\<rparr>"
  unfolding demo_shared_state_def tidy_first
  by (simp add: demo_state_eq ProtobufModel_init_def init_body_def core_Net_def ws_defs demo_defs
      tidy_defs)

lemma forward_raises_missing:
  assumes v: "list_all (\<lambda>inp. inp \<in> set (external_input (net self))) (map fst d)"
    and g: "graph_run eng self d c = (r, c1)"
    and na: "\<not> set (external_output (net self)) \<subseteq> dom (cur_blobs c1)"
  shows "\<exists>b. b \<in> set (external_output (net self)) \<and> b \<notin> dom (cur_blobs c1)
     \<and> fst (ProtobufModel_forward eng self (Some d) c)
          = Inl (RuntimeError (''Can't find blob: '' @ b))"
proof -
  let ?c2 = "c1\<lparr>log := log c1 @ caught_log r self\<rparr>"
  let ?out = "external_output (net self)"
  let ?b = "hd (filter (\<lambda>b. b \<notin> dom (cur_blobs c1)) ?out)"
  have b2: "cur_blobs ?c2 = cur_blobs c1" by (simp add: cur_blobs_def)
  obtain r3 c3 where f: "fetch_outputs ?out ?c2 = (r3, c3)" by (cases "fetch_outputs ?out ?c2")
  from fetch_outputs_result [of ?out ?c2] f na b2
  have r3: "r3 = Inl (RuntimeError (''Can't find blob: '' @ ?b))" by simp
  from na have "filter (\<lambda>b. b \<notin> dom (cur_blobs c1)) ?out \<noteq> []"
    by (auto simp: filter_empty_conv)
  then have "?b \<in> set (filter (\<lambda>b. b \<notin> dom (cur_blobs c1)) ?out)" by (rule hd_in_set)
  then have m: "?b \<in> set ?out" "?b \<notin> dom (cur_blobs c1)" by simp_all
  have "fst (ProtobufModel_forward eng self (Some d) c)
      = Inl (RuntimeError (''Can't find blob: '' @ ?b))"
    using forward_valid [OF v g] f r3 by simp
  with m show ?thesis by blast
qed

lemma constructed_runner_outputs_available:
  assumes "ProtobufModel_init eng (NetDefObj p) (NetDefObj i) c = (Inr self, c')"
    and "set (external_output p) \<subseteq> dom (blobs (built_workspace eng p i))"
  shows "set (external_output (net self)) \<subseteq> dom (runner_blobs self c')"
proof -
  from init_Inr_args [OF assms(1)] have n: "ws_name self = ''__ws_tmp__''" "net self = p"
    by auto
  from init_workspace [of eng p i c] assms(1)
  have "workspaces c' ''__ws_tmp__'' = built_workspace eng p i" by simp
  with assms(2) show ?thesis by (simp add: runner_blobs_def n)
qed

section \<open>Detection model lemmas\<close>

lemma convert_inputs_None:
  "fst (convert_inputs eng self batched_inputs c) \<noteq> Inr (Some c2_inputs)"
  by (simp add: convert_inputs_def split: sum.splits prod.splits)

lemma ProtobufDetectionModel_forward_raises:
  "\<exists>e. fst (ProtobufDetectionModel_forward eng self batched_inputs c) = Inl e"
proof (cases "convert_inputs eng self batched_inputs c")
  case (fields r self1 c1)
  show ?thesis
  proof (cases r)
    case (Inl e)
    with fields show ?thesis by (simp add: ProtobufDetectionModel_forward_def)
  next
    case (Inr v)
    with fields convert_inputs_None [of eng self batched_inputs c] have "v = None"
      by (cases v) auto
    with fields Inr show ?thesis
      by (simp add: ProtobufDetectionModel_forward_def ProtobufModel_forward_def)
  qed
qed

lemmas conv_defs = convert_inputs_def convert_batched_inputs_to_c2_format_def padded_batch_def
  im_info_of_def round_up_to_def image_height_def image_width_def










section \<open>The claims\<close>

subsection \<open>C1: forward of the detection model\<close>

text \<open>
  Claim C1 says that \<^verbatim>\<open>ProtobufDetectionModel.forward\<close> converts the inputs, runs the graph
  once on them, converts the outputs and returns the result.  The code does not:
  \<^verbatim>\<open>_convert_inputs\<close> runs the graph itself and returns \<^verbatim>\<open>None\<close>, which \<^verbatim>\<open>forward\<close> then
  passes to the wrapped model, whose assertion cannot iterate over it.  On the example
  model and one image, \<^verbatim>\<open>forward\<close> raises \<^verbatim>\<open>TypeError\<close> after the graph has run once, and
  no converter is applied.  (By \<open>ProtobufDetectionModel_forward_raises\<close> it raises on
  every input.)
\<close>

theorem forward_raises_TypeError:
  "fst (ProtobufDetectionModel_forward demo_engine demo_detection_model [demo_input] demo_state)
     = Inl TypeError
   \<and> count_list (calls (snd (snd (ProtobufDetectionModel_forward demo_engine
          demo_detection_model [demo_input] demo_state)))) (Call_RunNet ''net'') = 1"
  by (simp add: ProtobufDetectionModel_forward_def conv_defs fwd_defs ws_defs demo_defs
      demo_state_eq demo_input_def demo_detection_model_def)

subsection \<open>C2: the conversion of the inputs\<close>

text \<open>
  Claim C2 says that \<^verbatim>\<open>_convert_inputs\<close> returns a dictionary with the keys \<^verbatim>\<open>data\<close> and
  \<^verbatim>\<open>im_info\<close> and runs no graph.  The code builds that dictionary, feeds it to the
  wrapped model and returns nothing: on the example model and one image its value is
  \<^verbatim>\<open>None\<close>, and the graph has been run.  (By \<open>convert_inputs_None\<close> it never returns a
  dictionary.)
\<close>

theorem convert_inputs_returns_None_and_runs_graph:
  "fst (convert_inputs demo_engine demo_detection_model [demo_input] demo_state) = Inr None
   \<and> Call_RunNet ''net''
        \<in> set (calls (snd (snd (convert_inputs demo_engine demo_detection_model [demo_input]
                                   demo_state))))
   \<and> Call_RunNet ''net'' \<notin> set (calls demo_state)"
  by (simp add: conv_defs fwd_defs ws_defs demo_defs demo_state_eq demo_input_def
      demo_detection_model_def)

subsection \<open>C3: the keys of the result\<close>

text \<open>
  Claim C3, as amended.  Let every key of the input dictionary be a declared external
  input of the graph.  If the workspace has a blob for every declared external output
  once the graph has run, \<^verbatim>\<open>ProtobufModel.forward\<close> returns a dictionary whose keys are
  distinct, are the declared outputs as a set, follow the declared order, and are the
  declared list itself when no output is declared twice.  Otherwise it returns nothing:
  fetching is outside the \<^verbatim>\<open>try\<close> statement, and the call raises the \<^verbatim>\<open>RuntimeError\<close> of
  \<^verbatim>\<open>FetchBlob\<close> for a declared output that has no blob.  The second case is real: the
  constructor of another runner empties the workspace that all runners share, after
  which the outputs of the first runner have no blob.
\<close>

theorem forward_returns_declared_outputs:
  assumes "set (map fst inputs_dict) \<subseteq> set (external_input (net self))"
  shows "(set (external_output (net self))
            \<subseteq> dom (cur_blobs (snd (graph_run eng self inputs_dict c)))
          \<longrightarrow> (\<exists>outputs_dict self' c'.
                 ProtobufModel_forward eng self (Some inputs_dict) c
                   = (Inr outputs_dict, self', c')
                 \<and> set (map fst outputs_dict) = set (external_output (net self))
                 \<and> distinct (map fst outputs_dict)
                 \<and> subseq (map fst outputs_dict) (external_output (net self))
                 \<and> (distinct (external_output (net self))
                      \<longrightarrow> map fst outputs_dict = external_output (net self))))
     \<and> (\<not> set (external_output (net self))
              \<subseteq> dom (cur_blobs (snd (graph_run eng self inputs_dict c)))
          \<longrightarrow> (\<exists>b. b \<in> set (external_output (net self))
                 \<and> b \<notin> dom (cur_blobs (snd (graph_run eng self inputs_dict c)))
                 \<and> fst (ProtobufModel_forward eng self (Some inputs_dict) c)
                      = Inl (RuntimeError (''Can't find blob: '' @ b))))"
proof -
  obtain r c1 where g: "graph_run eng self inputs_dict c = (r, c1)"
    by (cases "graph_run eng self inputs_dict c")
  let ?out = "external_output (net self)"
  let ?od = "OrderedDict (map (\<lambda>b. (b, the (cur_blobs c1 b))) ?out)"
  note v = valid_keys [OF assms]
  have present: "\<exists>outputs_dict self' c'.
                 ProtobufModel_forward eng self (Some inputs_dict) c
                   = (Inr outputs_dict, self', c')
                 \<and> set (map fst outputs_dict) = set ?out
                 \<and> distinct (map fst outputs_dict)
                 \<and> subseq (map fst outputs_dict) ?out
                 \<and> (distinct ?out \<longrightarrow> map fst outputs_dict = ?out)"
    if a: "set ?out \<subseteq> dom (cur_blobs c1)"
  proof -
    from forward_returns [OF v g a] obtain c' where
      f: "ProtobufModel_forward eng self (Some inputs_dict) c = (Inr ?od, caught r self, c')"
      by blast
    have keys: "map fst ?od = uniq [] ?out" by (simp add: OrderedDict_keys comp_def)
    have "set (map fst ?od) = set ?out" by (simp only: keys uniq_set) simp
    moreover have "distinct (map fst ?od)" by (simp only: keys uniq_distinct)
    moreover have "subseq (map fst ?od) ?out" by (simp only: keys uniq_subseq)
    moreover have "distinct ?out \<longrightarrow> map fst ?od = ?out"
      by (simp only: keys) (simp add: uniq_id)
    ultimately show ?thesis using f by blast
  qed
  have missing: "\<exists>b. b \<in> set ?out \<and> b \<notin> dom (cur_blobs c1)
                 \<and> fst (ProtobufModel_forward eng self (Some inputs_dict) c)
                      = Inl (RuntimeError (''Can't find blob: '' @ b))"
    if na: "\<not> set ?out \<subseteq> dom (cur_blobs c1)"
    by (rule forward_raises_missing [OF v g na])
  from present missing show ?thesis by (simp only: g snd_conv) blast
qed

text \<open>
  The claim as stated fails: a runner is constructed for the example graph, a second
  runner is constructed for a graph with another output, and the first runner is
  called with both of its declared inputs.
\<close>

theorem forward_after_second_runner_counterexample:
  "fst (ProtobufModel_init tidy_engine (NetDefObj demo_predict_net) (NetDefObj demo_init_net)
          fresh_process) = Inr demo_model
   \<and> set (map fst [(''data'', demo_tensor), (''im_info'', demo_tensor)])
        \<subseteq> set (external_input (net demo_model))
   \<and> fst (ProtobufModel_forward tidy_engine demo_model
            (Some [(''data'', demo_tensor), (''im_info'', demo_tensor)]) demo_shared_state)
       = Inl (RuntimeError ''Can't find blob: scores'')"
proof -
  have 1: "fst (ProtobufModel_init tidy_engine (NetDefObj demo_predict_net)
                  (NetDefObj demo_init_net) fresh_process) = Inr demo_model"
    by (simp only: tidy_first fst_conv)
  have 2: "set (map fst [(''data'', demo_tensor), (''im_info'', demo_tensor)])
        \<subseteq> set (external_input (net demo_model))"
    by (simp add: demo_defs)
  have 3: "fst (ProtobufModel_forward tidy_engine demo_model
            (Some [(''data'', demo_tensor), (''im_info'', demo_tensor)]) demo_shared_state)
       = Inl (RuntimeError ''Can't find blob: scores'')"
    by (simp add: fwd_defs ws_defs demo_defs tidy_defs demo_shared_state_eq)
  from 1 2 3 show ?thesis by (intro conjI)
qed

theorem forward_returns_declared_outputs_witness:
  "(\<exists>outputs_dict self' c'.
     ProtobufModel_forward demo_engine demo_model
       (Some [(''data'', demo_tensor), (''im_info'', demo_tensor)]) demo_state
       = (Inr outputs_dict, self', c')
     \<and> map fst outputs_dict = [''scores''])
   \<and> fst (ProtobufModel_forward tidy_engine demo_model
            (Some [(''data'', demo_tensor), (''im_info'', demo_tensor)]) demo_shared_state)
       = Inl (RuntimeError ''Can't find blob: scores'')"
proof -
  let ?d = "[(''data'', demo_tensor), (''im_info'', demo_tensor)]"
  have e: "external_output (net demo_model) = [''scores'']" by (simp add: demo_defs)
  have h1: "set (map fst ?d) \<subseteq> set (external_input (net demo_model))"
    by (simp add: demo_defs)
  have h2: "set (external_output (net demo_model))
              \<subseteq> dom (cur_blobs (snd (graph_run demo_engine demo_model ?d demo_state)))"
    by (simp add: demo_state_eq graph_run_def ws_defs demo_defs)
  have h3: "distinct (external_output (net demo_model))" by (simp add: e)
  from forward_returns_declared_outputs [OF h1, of demo_engine demo_state] h2
  obtain outputs_dict self' c' where
    f: "ProtobufModel_forward demo_engine demo_model (Some ?d) demo_state
          = (Inr outputs_dict, self', c')"
    and k: "distinct (external_output (net demo_model))
          \<longrightarrow> map fst outputs_dict = external_output (net demo_model)"
    by blast
  from k h3 have "map fst outputs_dict = [''scores'']" by (simp add: e)
  with f have one: "\<exists>outputs_dict self' c'.
     ProtobufModel_forward demo_engine demo_model (Some ?d) demo_state
       = (Inr outputs_dict, self', c')
     \<and> map fst outputs_dict = [''scores'']" by (intro exI conjI)
  have n2: "\<not> set (external_output (net demo_model))
              \<subseteq> dom (cur_blobs (snd (graph_run tidy_engine demo_model ?d demo_shared_state)))"
    by (simp add: demo_shared_state_eq graph_run_def ws_defs demo_defs tidy_defs)
  from forward_returns_declared_outputs [OF h1, of tidy_engine demo_shared_state] n2
  obtain b where b: "b \<in> set (external_output (net demo_model))"
    and r: "fst (ProtobufModel_forward tidy_engine demo_model (Some ?d) demo_shared_state)
              = Inl (RuntimeError (''Can't find blob: '' @ b))"
    by blast
  from b have "b = ''scores''" by (simp add: e)
  with r have two: "fst (ProtobufModel_forward tidy_engine demo_model (Some ?d) demo_shared_state)
       = Inl (RuntimeError ''Can't find blob: scores'')" by simp
  from one two show ?thesis by (intro conjI)
qed

subsection \<open>C4: the output blobs are reset\<close>

text \<open>
  Claim C4.  When a call of \<^verbatim>\<open>ProtobufModel.forward\<close> returns, every declared external
  output blob of the runner's workspace holds the string that marks it uninitialized.
  Consequently, if in the next call the run leaves such a blob as it was when the call
  began (as a run that fails before computing it does), the value returned for it is
  that string and not a value computed by an earlier run.
\<close>

theorem outputs_reset_after_forward:
  assumes "ProtobufModel_forward eng self (Some inputs_dict) c = (Inr outputs_dict, self', c')"
  shows "(\<forall>b \<in> set (external_output (net self)).
            runner_blobs self c' b = Some (StringBlob (uninitialized_str b)))
     \<and> (\<forall>inputs2 outputs2 self2 c2 b.
           ProtobufModel_forward eng self' (Some inputs2) c' = (Inr outputs2, self2, c2)
           \<and> b \<in> set (external_output (net self))
           \<and> cur_blobs (snd (graph_run eng self' inputs2 c')) b = runner_blobs self c' b
           \<longrightarrow> map_of outputs2 b = Some (StringBlob (uninitialized_str b)))"
proof -
  let ?out = "external_output (net self)"
  obtain r c1 where g: "graph_run eng self inputs_dict c = (r, c1)"
    by (cases "graph_run eng self inputs_dict c")
  from forward_Inr_outputs_present [OF assms] g
  have v: "list_all (\<lambda>inp. inp \<in> set (external_input (net self))) (map fst inputs_dict)"
    and a: "set ?out \<subseteq> dom (cur_blobs c1)" by simp_all
  from forward_returns [OF v g a] assms
  have s: "self' = caught r self"
    and rb: "runner_blobs self c' = (\<lambda>b. if b \<in> set ?out
           then Some (StringBlob (uninitialized_str b)) else cur_blobs c1 b)"
    by auto
  have one: "\<forall>b \<in> set ?out. runner_blobs self c' b = Some (StringBlob (uninitialized_str b))"
    by (simp add: rb)
  have two: "map_of outputs2 b = Some (StringBlob (uninitialized_str b))"
    if f2: "ProtobufModel_forward eng self' (Some inputs2) c' = (Inr outputs2, self2, c2)"
      and b: "b \<in> set ?out"
      and k: "cur_blobs (snd (graph_run eng self' inputs2 c')) b = runner_blobs self c' b"
    for inputs2 outputs2 self2 c2 b
  proof -
    obtain r2 c12 where g2: "graph_run eng self' inputs2 c' = (r2, c12)"
      by (cases "graph_run eng self' inputs2 c'")
    have n: "external_output (net self') = ?out" by (simp add: s)
    from forward_Inr_outputs_present [OF f2] g2
    have v2: "list_all (\<lambda>inp. inp \<in> set (external_input (net self'))) (map fst inputs2)"
      and a2: "set (external_output (net self')) \<subseteq> dom (cur_blobs c12)" by simp_all
    from forward_returns [OF v2 g2 a2] f2
    have o2: "outputs2 = OrderedDict (map (\<lambda>b. (b, the (cur_blobs c12 b))) ?out)"
      by (auto simp: n)
    from k g2 one b have "cur_blobs c12 b = Some (StringBlob (uninitialized_str b))" by simp
    with b show ?thesis by (simp add: o2 map_of_OrderedDict)
  qed
  from one two show ?thesis by blast
qed

theorem outputs_reset_after_forward_witness:
  "runner_blobs demo_model demo_state1 ''scores'' = Some (StringBlob (uninitialized_str ''scores''))
   \<and> fst (graph_run demo_engine demo_model [(''data'', demo_scalar)] demo_state1)
       = Some (RuntimeError ''data has no dimensions'')
   \<and> (\<exists>outputs2. fst (ProtobufModel_forward demo_engine demo_model
                           (Some [(''data'', demo_scalar)]) demo_state1) = Inr outputs2
         \<and> map_of outputs2 ''scores'' = Some (StringBlob (uninitialized_str ''scores'')))"
proof -
  let ?d2 = "[(''data'', demo_scalar)]"
  note t = outputs_reset_after_forward [OF demo_first]
  have o: "''scores'' \<in> set (external_output (net demo_model))" by (simp add: demo_defs)
  from t o have one: "runner_blobs demo_model demo_state1 ''scores''
      = Some (StringBlob (uninitialized_str ''scores''))" by blast
  have flt: "fst (graph_run demo_engine demo_model ?d2 demo_state1)
       = Some (RuntimeError ''data has no dimensions'')"
    unfolding demo_state1_def
    by (simp add: graph_run_def fwd_defs ws_defs demo_defs demo_state_eq demo_scalar_def)
  have k: "cur_blobs (snd (graph_run demo_engine demo_model ?d2 demo_state1)) ''scores''
      = runner_blobs demo_model demo_state1 ''scores''"
    unfolding demo_state1_def
    by (simp add: graph_run_def runner_blobs_def fwd_defs ws_defs demo_defs demo_state_eq
        demo_scalar_def)
  obtain outputs2 self2 c2 where
    f2: "ProtobufModel_forward demo_engine demo_model (Some ?d2) demo_state1
          = (Inr outputs2, self2, c2)"
    using demo_second
    by (cases "ProtobufModel_forward demo_engine demo_model (Some ?d2) demo_state1") auto
  from t f2 o k have "map_of outputs2 ''scores'' = Some (StringBlob (uninitialized_str ''scores''))"
    by blast
  with f2 one flt show ?thesis by simp
qed

subsection \<open>C5: a runtime fault of the engine is caught\<close>



subsection \<open>C6: an undeclared input name fails fast\<close>

text \<open>
  Claim C6.  For every input dictionary with a key that is not a declared external
  input of the graph, \<^verbatim>\<open>ProtobufModel.forward\<close> raises the assertion error and leaves
  the runner and the whole process state as they were: no blob is fed, nothing is run.
\<close>

theorem undeclared_input_fails_fast:
  assumes "k \<in> set (map fst inputs_dict)" and "k \<notin> set (external_input (net self))"
  shows "ProtobufModel_forward eng self (Some inputs_dict) c = (Inl AssertionError, self, c)"
proof -
  from assms have "\<not> list_all (\<lambda>inp. inp \<in> set (external_input (net self))) (map fst inputs_dict)"
    by (auto simp: list_all_iff)
  then show ?thesis by (simp add: ProtobufModel_forward_def)
qed

theorem undeclared_input_fails_fast_witness:
  "ProtobufModel_forward demo_engine demo_model (Some [(''data'', demo_tensor), (''gt_boxes'', demo_tensor)])
     demo_state = (Inl AssertionError, demo_model, demo_state)"
  using undeclared_input_fails_fast
    [of "''gt_boxes''" "[(''data'', demo_tensor), (''gt_boxes'', demo_tensor)]" demo_model demo_engine demo_state]
  by (simp add: demo_defs)

subsection \<open>C7: an unregistered architecture tag\<close>

text \<open>
  Claim C7, as amended.  Let the runner be constructed successfully and no converter be
  given.  If the \<^verbatim>\<open>meta_architecture\<close> tag of the graph is ASCII and names no registered
  architecture, the constructor of \<^verbatim>\<open>ProtobufDetectionModel\<close> raises \<^verbatim>\<open>KeyError\<close>, which is
  a \<^verbatim>\<open>LookupError\<close>; if the tag is not ASCII, it raises \<^verbatim>\<open>UnicodeDecodeError\<close>.  In both
  cases the constructor fails and no model exists on which inference could be called.
\<close>

theorem unregistered_meta_architecture_fails_at_construction:
  assumes "ProtobufModel_init eng predict_net init_net c = (Inr pm, c1)"
    and "get_pb_arg_vals predict_net ''meta_architecture'' ''GeneralizedRCNN'' = Inr tag"
  shows "(list_all (\<lambda>ch. (of_char ch :: nat) < 128) tag \<and> registry tag = None
            \<longrightarrow> ProtobufDetectionModel_init eng registry predict_net init_net None c
                  = (Inl (KeyError tag), c1)
                \<and> is_LookupError (KeyError tag))
     \<and> (\<not> list_all (\<lambda>ch. (of_char ch :: nat) < 128) tag
            \<longrightarrow> ProtobufDetectionModel_init eng registry predict_net init_net None c
                  = (Inl UnicodeDecodeError, c1))"
proof -
  from init_Inr_NetDef [OF assms(1)] obtain p where p: "predict_net = NetDefObj p" by blast
  have i: "\<exists>sd. get_pb_arg_vali predict_net ''size_divisibility'' 0 = Inr sd"
    by (simp add: p get_pb_arg_vali_def split: option.splits)
  then obtain sd where sd: "get_pb_arg_vali predict_net ''size_divisibility'' 0 = Inr sd" by blast
  show ?thesis
    by (simp add: ProtobufDetectionModel_init_def assms sd decode_ascii_def)
qed

theorem unregistered_meta_architecture_counterexample:
  "fst (ProtobufDetectionModel_init demo_engine demo_registry (NetDefObj demo_latin1_net)
          (NetDefObj demo_init_net) None fresh_process) = Inl UnicodeDecodeError
   \<and> \<not> is_LookupError UnicodeDecodeError
   \<and> demo_registry [CHR 0xE9] = None"
  by (simp add: ProtobufDetectionModel_init_def ProtobufModel_init_def init_body_def core_Net_def
      get_pb_arg_vali_def get_pb_arg_vals_def decode_ascii_def demo_latin1_net_def
      demo_registry_def ws_defs demo_defs)

theorem unregistered_meta_architecture_fails_at_construction_witness:
  "ProtobufDetectionModel_init demo_engine demo_registry (NetDefObj demo_unknown_net)
      (NetDefObj demo_init_net) None fresh_process
     = (Inl (KeyError ''PanopticFPN''),
        snd (ProtobufModel_init demo_engine (NetDefObj demo_unknown_net) (NetDefObj demo_init_net)
               fresh_process))
   \<and> ProtobufDetectionModel_init demo_engine demo_registry (NetDefObj demo_latin1_net)
      (NetDefObj demo_init_net) None fresh_process
     = (Inl UnicodeDecodeError,
        snd (ProtobufModel_init demo_engine (NetDefObj demo_latin1_net) (NetDefObj demo_init_net)
               fresh_process))"
proof -
  let ?i1 = "ProtobufModel_init demo_engine (NetDefObj demo_unknown_net) (NetDefObj demo_init_net)
               fresh_process"
  let ?i2 = "ProtobufModel_init demo_engine (NetDefObj demo_latin1_net) (NetDefObj demo_init_net)
               fresh_process"
  have "fst ?i1 = Inr (demo_model\<lparr>net := demo_unknown_net\<rparr>)"
    by (simp add: ProtobufModel_init_def init_body_def core_Net_def demo_unknown_net_def
        ws_defs demo_defs)
  then have a1: "?i1 = (Inr (demo_model\<lparr>net := demo_unknown_net\<rparr>), snd ?i1)"
    by (simp add: prod_eq_iff)
  have "fst ?i2 = Inr (demo_model\<lparr>net := demo_latin1_net\<rparr>)"
    by (simp add: ProtobufModel_init_def init_body_def core_Net_def demo_latin1_net_def
        ws_defs demo_defs)
  then have a2: "?i2 = (Inr (demo_model\<lparr>net := demo_latin1_net\<rparr>), snd ?i2)"
    by (simp add: prod_eq_iff)
  have t1: "get_pb_arg_vals (NetDefObj demo_unknown_net) ''meta_architecture'' ''GeneralizedRCNN''
      = Inr ''PanopticFPN''"
    by (simp add: get_pb_arg_vals_def demo_unknown_net_def demo_defs)
  have t2: "get_pb_arg_vals (NetDefObj demo_latin1_net) ''meta_architecture'' ''GeneralizedRCNN''
      = Inr [CHR 0xE9]"
    by (simp add: get_pb_arg_vals_def demo_latin1_net_def demo_defs)
  have h1: "list_all (\<lambda>ch. (of_char ch :: nat) < 128) ''PanopticFPN''
      \<and> demo_registry ''PanopticFPN'' = None"
    by (simp add: demo_registry_def)
  have h2: "\<not> list_all (\<lambda>ch. (of_char ch :: nat) < 128) [CHR 0xE9]" by simp
  from unregistered_meta_architecture_fails_at_construction [OF a1 t1, of demo_registry] h1
    unregistered_meta_architecture_fails_at_construction [OF a2 t2, of demo_registry] h2
  show ?thesis by blast
qed

subsection \<open>C8: padding to the size divisibility\<close>



subsection \<open>C9: what the constructor of the runner does\<close>

text \<open>
  Claim C9.  The constructor of \<^verbatim>\<open>ProtobufModel\<close> asserts that both arguments are graph
  definitions (anything else raises the assertion error and touches no workspace).
  For graph definitions on which the engine succeeds, it runs the init graph exactly
  once in the emptied workspace \<^verbatim>\<open>__ws_tmp__\<close>, then creates an uninitialized blob for
  exactly the declared external inputs that the init graph did not populate, so that
  every declared external input has a blob and the blobs of the init graph are kept,
  and then registers the graph under its name.
\<close>

theorem ProtobufModel_init_builds_workspace:
  assumes r1: "run_ops eng init_net Map.empty = (None, bs1)"
    and r2: "create_ops eng predict_net
               (with_placeholders (external_input predict_net) bs1) = (None, bs2)"
  shows "\<exists>created c'.
       ProtobufModel_init eng (NetDefObj predict_net) (NetDefObj init_net) c
         = (Inr \<lparr>ws_name = ''__ws_tmp__'', net = predict_net, error_msgs = {}\<rparr>, c')
     \<and> calls c' = calls c @ [Call_RunNetOnce (name init_net)] @ map Call_CreateBlob created
                     @ [Call_CreateNet (name predict_net)]
     \<and> distinct created
     \<and> set created = {b \<in> set (external_input predict_net). bs1 b = None}
     \<and> set (external_input predict_net)
           \<subseteq> dom (with_placeholders (external_input predict_net) bs1)
     \<and> (\<forall>b \<in> dom bs1. with_placeholders (external_input predict_net) bs1 b = bs1 b)
     \<and> workspaces c' ''__ws_tmp__''
           = \<lparr>blobs = bs2, nets = [name predict_net \<mapsto> predict_net]\<rparr>
     \<and> current c' = current c
     \<and> ProtobufModel_init eng OtherObj (NetDefObj init_net) c
           = (Inl AssertionError, logger_info ''Initializing ProtobufModel ...'' c)
     \<and> ProtobufModel_init eng (NetDefObj predict_net) OtherObj c
           = (Inl AssertionError, logger_info ''Initializing ProtobufModel ...'' c)"
proof -
  let ?c0 = "logger_info ''Initializing ProtobufModel ...'' c"
  let ?c1 = "ResetWorkspace (SwitchWorkspace ''__ws_tmp__'' ?c0)"
  let ?c2 = "record_call (Call_RunNetOnce (name init_net)) (set_blobs bs1 ?c1)"
  have e1: "cur_blobs ?c1 = Map.empty"
    by (simp add: cur_blobs_def ResetWorkspace_def SwitchWorkspace_def empty_workspace_def)
  have run: "RunNetOnce eng init_net ?c1 = (None, ?c2)"
    by (simp add: RunNetOnce_def e1 r1)
  have b2: "cur_blobs ?c2 = bs1" by simp
  from create_missing_inputs_eq [of "external_input predict_net" ?c2] obtain created where
    d: "distinct created"
    and s: "set created = {b \<in> set (external_input predict_net). bs1 b = None}"
    and e: "create_missing_inputs (external_input predict_net) ?c2
         = set_blobs (with_placeholders (external_input predict_net) bs1)
             (?c2\<lparr>calls := calls ?c2 @ map Call_CreateBlob created\<rparr>)"
    unfolding b2 by blast
  let ?c3 = "set_blobs (with_placeholders (external_input predict_net) bs1)
             (?c2\<lparr>calls := calls ?c2 @ map Call_CreateBlob created\<rparr>)"
  obtain c4 where c4: "CreateNet eng predict_net ?c3 = (None, c4)"
    and c4_calls: "calls c4 = calls c @ [Call_RunNetOnce (name init_net)]
        @ map Call_CreateBlob created @ [Call_CreateNet (name predict_net)]"
    and c4_ws: "workspaces c4 ''__ws_tmp__''
        = \<lparr>blobs = bs2, nets = [name predict_net \<mapsto> predict_net]\<rparr>"
    by (simp add: CreateNet_def r2 ws_defs)
  have body: "init_body eng predict_net init_net ?c1 = (None, c4)"
    by (simp add: init_body_def run e c4)
  have org: "ScopedWS_enter ''__ws_tmp__'' True ?c0 = (current c, ?c1)"
    by (simp add: ScopedWS_enter_def logger_info_def SwitchWorkspace_def ResetWorkspace_def)
  let ?c' = "ScopedWS_exit (current c) False c4"
  have init: "ProtobufModel_init eng (NetDefObj predict_net) (NetDefObj init_net) c
         = (Inr \<lparr>ws_name = ''__ws_tmp__'', net = predict_net, error_msgs = {}\<rparr>, ?c')"
    by (simp add: ProtobufModel_init_def core_Net_def ScopedWS_def org body)
  have p1: "set (external_input predict_net)
           \<subseteq> dom (with_placeholders (external_input predict_net) bs1)"
    by (auto simp: with_placeholders_def)
  have p2: "\<forall>b \<in> dom bs1. with_placeholders (external_input predict_net) bs1 b = bs1 b"
    by (auto simp: with_placeholders_def)
  have a1: "ProtobufModel_init eng OtherObj (NetDefObj init_net) c = (Inl AssertionError, ?c0)"
    by (simp add: ProtobufModel_init_def)
  have a2: "ProtobufModel_init eng (NetDefObj predict_net) OtherObj c = (Inl AssertionError, ?c0)"
    by (simp add: ProtobufModel_init_def)
  have "calls ?c' = calls c @ [Call_RunNetOnce (name init_net)] @ map Call_CreateBlob created
                     @ [Call_CreateNet (name predict_net)]"
    by (simp add: ScopedWS_exit_def SwitchWorkspace_def c4_calls)
  moreover have "workspaces ?c' ''__ws_tmp__''
      = \<lparr>blobs = bs2, nets = [name predict_net \<mapsto> predict_net]\<rparr>"
    by (simp add: ScopedWS_exit_def SwitchWorkspace_def c4_ws)
  moreover have "current ?c' = current c" by (simp add: ScopedWS_exit_def SwitchWorkspace_def)
  ultimately show ?thesis using init d s p1 p2 a1 a2 by blast
qed

theorem ProtobufModel_init_builds_workspace_witness:
  "\<exists>created.
     ProtobufModel_init demo_engine (NetDefObj demo_predict_net) (NetDefObj demo_init_net)
        fresh_process = (Inr demo_model, demo_state)
     \<and> calls demo_state = [Call_RunNetOnce ''init''] @ map Call_CreateBlob created
                             @ [Call_CreateNet ''net'']
     \<and> set created = {''data'', ''im_info''}
     \<and> blobs (workspaces demo_state ''__ws_tmp__'')
          = [''data'' \<mapsto> UninitializedBlob, ''im_info'' \<mapsto> UninitializedBlob,
             ''scores'' \<mapsto> UninitializedBlob]"
proof -
  let ?p = "with_placeholders (external_input demo_predict_net) Map.empty"
  have r1: "run_ops demo_engine demo_init_net Map.empty = (None, Map.empty)"
    by (simp add: demo_defs)
  have r2: "create_ops demo_engine demo_predict_net ?p
              = (None, ?p(''scores'' \<mapsto> UninitializedBlob))"
    by (simp add: demo_defs)
  from ProtobufModel_init_builds_workspace [OF r1 r2, of fresh_process] obtain created c' where
    i: "ProtobufModel_init demo_engine (NetDefObj demo_predict_net) (NetDefObj demo_init_net)
          fresh_process
        = (Inr \<lparr>ws_name = ''__ws_tmp__'', net = demo_predict_net, error_msgs = {}\<rparr>, c')"
    and k: "calls c' = calls fresh_process @ [Call_RunNetOnce (name demo_init_net)]
              @ map Call_CreateBlob created @ [Call_CreateNet (name demo_predict_net)]"
    and s: "set created = {b \<in> set (external_input demo_predict_net). Map.empty b = None}"
    and w: "workspaces c' ''__ws_tmp__''
           = \<lparr>blobs = ?p(''scores'' \<mapsto> UninitializedBlob),
              nets = [name demo_predict_net \<mapsto> demo_predict_net]\<rparr>"
    by blast
  from i have c': "c' = demo_state" by (simp add: demo_state_def)
  have 1: "ProtobufModel_init demo_engine (NetDefObj demo_predict_net) (NetDefObj demo_init_net)
        fresh_process = (Inr demo_model, demo_state)"
    using i by (simp add: c' demo_model_def)
  have 2: "calls demo_state = [Call_RunNetOnce ''init''] @ map Call_CreateBlob created
                             @ [Call_CreateNet ''net'']"
    using k by (simp add: c' fresh_process_def demo_init_net_def demo_predict_net_def)
  have 3: "set created = {''data'', ''im_info''}"
    using s by (auto simp: demo_predict_net_def)
  have 4: "blobs (workspaces demo_state ''__ws_tmp__'')
          = [''data'' \<mapsto> UninitializedBlob, ''im_info'' \<mapsto> UninitializedBlob,
             ''scores'' \<mapsto> UninitializedBlob]"
    using w by (auto simp: c' with_placeholders_def demo_predict_net_def fun_eq_iff)
  from 1 2 3 4 show ?thesis by blast
qed

subsection \<open>C10: every runner uses the workspace of the same name\<close>

text \<open>
  Claim C10.  Every runner uses the fixed workspace name \<^verbatim>\<open>__ws_tmp__\<close>, and its
  constructor opens that workspace with reset enabled.  So when a second runner is
  constructed in the same process, it has the workspace name of the first, what the
  workspace then holds depends on the second construction only and not on anything the
  first runner left there, and the only graph registered in it is that of the second.
\<close>

theorem second_runner_resets_workspace:
  assumes "ProtobufModel_init eng predict1 init1 c = (Inr self1, c1)"
    and "ProtobufModel_init eng predict2 init2 c1 = (Inr self2, c2)"
  shows "ws_name self1 = ''__ws_tmp__'' \<and> ws_name self2 = ''__ws_tmp__''
     \<and> (\<forall>c0. workspaces c2 (ws_name self1)
               = workspaces (snd (ProtobufModel_init eng predict2 init2 c0)) (ws_name self1))
     \<and> nets (workspaces c2 (ws_name self1)) = [name (net self2) \<mapsto> net self2]"
proof -
  from init_Inr_args [OF assms(1)] have n1: "ws_name self1 = ''__ws_tmp__''" by blast
  from init_Inr_args [OF assms(2)] obtain p i where
    a: "predict2 = NetDefObj p" "init2 = NetDefObj i" "ws_name self2 = ''__ws_tmp__''"
      "net self2 = p" "nets (built_workspace eng p i) = [name p \<mapsto> p]" by blast
  from init_workspace [of eng p i c1] assms(2) a
  have w: "workspaces c2 ''__ws_tmp__'' = built_workspace eng p i" by simp
  show ?thesis by (simp add: n1 a w init_workspace)
qed

theorem second_runner_resets_workspace_witness:
  "\<exists>self2 c2.
     ProtobufModel_init demo_engine (NetDefObj demo_other_net) (NetDefObj demo_init_net) demo_state
       = (Inr self2, c2)
     \<and> ws_name self2 = ws_name demo_model
     \<and> nets (workspaces demo_state (ws_name demo_model)) ''net'' = Some demo_predict_net
     \<and> nets (workspaces c2 (ws_name demo_model)) ''net'' = None"
proof -
  let ?i2 = "ProtobufModel_init demo_engine (NetDefObj demo_other_net) (NetDefObj demo_init_net)
               demo_state"
  let ?m2 = "demo_model\<lparr>net := demo_other_net\<rparr>"
  have "fst ?i2 = Inr ?m2"
    by (simp add: ProtobufModel_init_def init_body_def core_Net_def demo_other_net_def
        demo_state_eq ws_defs demo_defs)
  then have a2: "?i2 = (Inr ?m2, snd ?i2)" by (simp add: prod_eq_iff)
  note t = second_runner_resets_workspace [OF demo_init a2]
  from t have n: "ws_name ?m2 = ''__ws_tmp__''" "ws_name demo_model = ''__ws_tmp__''"
    by blast+
  from t have k: "nets (workspaces (snd ?i2) (ws_name demo_model))
      = [name (net ?m2) \<mapsto> net ?m2]"
    by blast
  have 1: "ws_name ?m2 = ws_name demo_model" by (simp add: n)
  have 2: "nets (workspaces demo_state (ws_name demo_model)) ''net'' = Some demo_predict_net"
    by (simp add: demo_state_eq demo_model_def)
  have 3: "nets (workspaces (snd ?i2) (ws_name demo_model)) ''net'' = None"
  proof -
    have "name (net ?m2) \<noteq> ''net''" by (simp add: demo_other_net_def)
    then have "[name (net ?m2) \<mapsto> net ?m2] ''net'' = None" by simp
    then show ?thesis by (simp only: k)
  qed
  from a2 1 2 3 show ?thesis by blast
qed

end
